theory Spec2Isabelle
  imports Main "HOL-Library.Word"
begin

section \<open>The file store of note-sx/server\<close>

text \<open>
  A shallow embedding of \<^verbatim>\<open>app/src/v1/File.ts\<close> (the controller \<^verbatim>\<open>File\<close> and the class
  \<^verbatim>\<open>Paths\<close>), \<^verbatim>\<open>app/src/v1/Mapper.ts\<close>, \<^verbatim>\<open>app/src/v1/helpers.ts\<close> and \<^verbatim>\<open>Cron.ts\<close>.
  JavaScript strings are \<^typ>\<open>string\<close>; the mutable controller instance and the outside
  world (index table, disk, edge cache, clock, random source) are records passed through
  every operation and returned updated; a thrown exception is the \<open>Inl\<close> of a sum.
\<close>

subsection \<open>Exceptions\<close>

text \<open>
  \<^verbatim>\<open>serverError(ServerErrors.X)\<close> comes from \<^verbatim>\<open>types.ts\<close>, which maps each name to a
  numeric status; the names are kept and the numbers left open. \<open>TypeError\<close> is the
  JavaScript error of reading a property of \<^verbatim>\<open>undefined\<close>, \<open>FsError\<close> an error thrown by
  \<^verbatim>\<open>node:fs\<close>, \<open>SqliteError\<close> one thrown by the database driver.
\<close>

datatype ServerErrors = FILE_FAILED_TO_INIT | FILE_FAILED_TO_SAVE | FILE_FAILED_TO_UPLOAD

datatype status = Code nat | serverError ServerErrors

datatype exn = HTTPException status | TypeError | FsError | SqliteError

subsection \<open>Identifier generator\<close>

definition fileExtensionWhitelist :: "string list" where
  "fileExtensionWhitelist =
     [''html'', ''css'',
      ''jpg'', ''jpeg'', ''png'', ''webp'', ''svg'', ''gif'',
      ''webm'',
      ''ttf'', ''otf'', ''woff'', ''woff2'']"

text \<open>
  \<^verbatim>\<open>filenameLengths\<close> is the object \<^verbatim>\<open>{ html: 8, default: 20 }\<close>, read by key. Only
  its own keys are modelled: a key inherited from \<^verbatim>\<open>Object.prototype\<close> (such as
  \<^verbatim>\<open>constructor\<close>) reads as a truthy non-number in JavaScript. No whitelisted
  extension is such a key, and the store only looks up whitelisted extensions.
\<close>

definition filenameLengths :: "string \<Rightarrow> nat option" where
  "filenameLengths k =
     (if k = ''html'' then Some 8 else if k = ''default'' then Some 20 else None)"

text \<open>
  \<^verbatim>\<open>hydrate\<close> replaces a missing or empty argument by the instance's field
  (\<^verbatim>\<open>extension || this.extension\<close>): the empty string is falsy.
\<close>

definition hydrate_extension :: "string \<Rightarrow> string \<Rightarrow> string" where
  "hydrate_extension this_extension optionalExtension =
     (if optionalExtension = [] then this_extension else optionalExtension)"

text \<open>
  \<^verbatim>\<open>filenameLengths[extension] || filenameLengths.default\<close>: a missing key and the
  number 0 both fall through to the default.
\<close>

definition filenameLength :: "string \<Rightarrow> string \<Rightarrow> nat" where
  "filenameLength this_extension optionalExtension =
     (case filenameLengths (hydrate_extension this_extension optionalExtension) of
        None \<Rightarrow> 20
      | Some n \<Rightarrow> if n = 0 then 20 else n)"

definition digits36 :: string where
  "digits36 = ''0123456789abcdefghijklmnopqrstuvwxyz''"

text \<open>\<^verbatim>\<open>Number.prototype.toString(radix)\<close> on a non-negative integer, radix 2 to 36.\<close>

function toString_radix :: "nat \<Rightarrow> nat \<Rightarrow> string" where
  "toString_radix r n =
     (if n < r \<or> r < 2 then [digits36 ! n]
      else toString_radix r (n div r) @ [digits36 ! (n mod r)])"
  by pat_completeness auto
termination
  by (relation "measure (\<lambda>(r, n). n)") auto

declare toString_radix.simps [simp del]

text \<open>
  \<^verbatim>\<open>Math.floor(bytes[i] * 0.140625)\<close>: the constant is \<open>9/64 = 36/256\<close>, a dyadic
  rational, and a byte times it is computed without rounding in binary64, so the floor
  is the integer quotient.
\<close>

definition scale36 :: "8 word \<Rightarrow> nat" where
  "scale36 b = (unat b * 9) div 64"

text \<open>The loop of \<^verbatim>\<open>getHashFilename\<close> over the bytes drawn, appending to \<^verbatim>\<open>name\<close>.\<close>

fun name_loop :: "8 word list \<Rightarrow> string \<Rightarrow> string" where
  "name_loop [] name = name"
| "name_loop (b # bytes) name = name_loop bytes (name @ toString_radix 36 (scale36 b))"

text \<open>
  \<^verbatim>\<open>crypto.getRandomValues(new Uint8Array(n))\<close> fills an array of \<open>n\<close> bytes. The
  random source is an infinite sequence of bytes and a position in it; a draw of \<open>n\<close>
  bytes reads the next \<open>n\<close> and advances the position.
\<close>

definition getRandomValues :: "(nat \<Rightarrow> 8 word) \<Rightarrow> nat \<Rightarrow> nat \<Rightarrow> 8 word list" where
  "getRandomValues src pos n = map src [pos ..< pos + n]"

definition getHashFilename_of :: "string \<Rightarrow> string \<Rightarrow> (nat \<Rightarrow> 8 word) \<Rightarrow> nat \<Rightarrow> string" where
  "getHashFilename_of this_extension extension src pos =
     name_loop (getRandomValues src pos (filenameLength this_extension extension)) []"

subsection \<open>Path resolver\<close>

text \<open>
  The fields of \<^verbatim>\<open>App\<close> that the store reads. \<^verbatim>\<open>folderPrefix\<close> is
  \<^verbatim>\<open>parseInt(process.env.FOLDER_PREFIX || '0', 10)\<close>: an integer, or \<^verbatim>\<open>NaN\<close> (\<open>None\<close>).
\<close>

record App =
  baseFolder :: string
  baseWebUrl :: string
  hashSalt :: string
  folderPrefix :: "int option"

text \<open>
  \<^verbatim>\<open>filename.substring(0, length)\<close>: a negative end counts as 0, one past the end as
  the length of the string.
\<close>

definition substring0 :: "string \<Rightarrow> int \<Rightarrow> string" where
  "substring0 s n = take (nat n) s"

definition subdir :: "App \<Rightarrow> string \<Rightarrow> string" where
  "subdir app filename =
     (case folderPrefix app of
        None \<Rightarrow> []
      | Some l \<Rightarrow> if l = 0 then [] else ''/'' @ substring0 filename l)"

definition folderPath :: "App \<Rightarrow> string \<Rightarrow> string \<Rightarrow> string" where
  "folderPath app filename extension =
     (if extension = ''html'' then ''notes'' @ subdir app filename
      else if extension = ''css'' then ''css'' @ subdir app filename
      else ''files'' @ subdir app filename)"

definition fullFilePath_folder :: "App \<Rightarrow> string \<Rightarrow> string \<Rightarrow> string" where
  "fullFilePath_folder app filename extension =
     baseFolder app @ ''/userfiles/'' @ folderPath app filename extension"

definition fullFilePath_filePath :: "App \<Rightarrow> string \<Rightarrow> string \<Rightarrow> string" where
  "fullFilePath_filePath app filename extension =
     fullFilePath_folder app filename extension @ ''/'' @ filename @ ''.'' @ extension"

text \<open>\<^verbatim>\<open>[a, b, c].join('/')\<close>\<close>

definition fileUrl :: "App \<Rightarrow> string \<Rightarrow> string \<Rightarrow> string" where
  "fileUrl app filename extension =
     baseWebUrl app @ ''/'' @ folderPath app filename extension @ ''/'' @ filename @ ''.'' @ extension"

definition displayUrl :: "App \<Rightarrow> string \<Rightarrow> string \<Rightarrow> string" where
  "displayUrl app filename extension =
     (if extension = ''html'' then baseWebUrl app @ ''/'' @ filename
      else fileUrl app filename extension)"

subsection \<open>Hashes (\<^verbatim>\<open>helpers.ts\<close>)\<close>

definition padStart2 :: "string \<Rightarrow> string" where
  "padStart2 s = replicate (2 - length s) (CHR ''0'') @ s"

text \<open>
  \<^verbatim>\<open>sha(algorithm, data)\<close>: the digest is the platform's
  (\<^verbatim>\<open>crypto.subtle.digest\<close>), a parameter here; the hexadecimal encoding of its bytes
  is the source's \<^verbatim>\<open>b.toString(16).padStart(2, '0')\<close>, joined.
\<close>

definition hex_of_bytes :: "8 word list \<Rightarrow> string" where
  "hex_of_bytes bs = concat (map (\<lambda>b. padStart2 (toString_radix 16 (unat b))) bs)"

definition sha :: "(string \<Rightarrow> string \<Rightarrow> 8 word list) \<Rightarrow> string \<Rightarrow> string \<Rightarrow> string" where
  "sha digest algorithm data = hex_of_bytes (digest algorithm data)"

definition sha256 :: "(string \<Rightarrow> string \<Rightarrow> 8 word list) \<Rightarrow> string \<Rightarrow> string" where
  "sha256 digest data = sha digest ''SHA-256'' data"

text \<open>\<^verbatim>\<open>(await sha256(text)).slice(0, 32)\<close>\<close>

definition shortHash :: "(string \<Rightarrow> string \<Rightarrow> 8 word list) \<Rightarrow> string \<Rightarrow> string" where
  "shortHash digest text = take 32 (sha256 digest text)"

subsection \<open>Row mapper (\<^verbatim>\<open>Mapper.ts\<close>) over the table \<^verbatim>\<open>files\<close>\<close>

text \<open>
  A row of \<^verbatim>\<open>files\<close> as the mapper holds it, every column nullable (\<^verbatim>\<open>init\<close> seeds
  each column with \<^verbatim>\<open>null\<close>). The columns are the ones the store reads and writes;
  timestamps are integers, as the sweeper compares \<^verbatim>\<open>expires\<close> with \<^verbatim>\<open>unixepoch()\<close>.
\<close>

record Row =
  r_id :: "nat option"
  r_users_id :: "nat option"
  r_filename :: "string option"
  r_filetype :: "string option"
  r_hash :: "string option"
  r_bytes :: "nat option"
  r_encrypted :: "nat option"
  r_created :: "int option"
  r_updated :: "int option"
  r_expires :: "int option"

definition emptyRow :: Row where
  "emptyRow = \<lparr>r_id = None, r_users_id = None, r_filename = None, r_filetype = None,
     r_hash = None, r_bytes = None, r_encrypted = None, r_created = None,
     r_updated = None, r_expires = None\<rparr>"

text \<open>\<^verbatim>\<open>!!this.row.id\<close>: \<^verbatim>\<open>null\<close> and the number 0 are falsy.\<close>

definition found :: "Row \<Rightarrow> bool" where
  "found row = (case r_id row of None \<Rightarrow> False | Some i \<Rightarrow> i \<noteq> 0)"

definition notFound :: "Row \<Rightarrow> bool" where
  "notFound row = (\<not> found row)"

text \<open>
  \<^verbatim>\<open>load(params)\<close> builds \<^verbatim>\<open>field1=? AND field2=? ... LIMIT 1\<close>; the store only
  passes the text columns below. A \<^verbatim>\<open>NULL\<close> column equals nothing. The table is the
  list of its rows in the order the engine scans them, so \<^verbatim>\<open>LIMIT 1\<close> is the first match.
\<close>

datatype column = filename_col | filetype_col | hash_col

fun column_of :: "column \<Rightarrow> Row \<Rightarrow> string option" where
  "column_of filename_col row = r_filename row"
| "column_of filetype_col row = r_filetype row"
| "column_of hash_col row = r_hash row"

definition selectQuery :: "(column \<times> string) list \<Rightarrow> Row \<Rightarrow> bool" where
  "selectQuery params row = list_all (\<lambda>(field, v). column_of field row = Some v) params"

definition load :: "(column \<times> string) list \<Rightarrow> Row list \<Rightarrow> Row" where
  "load params table =
     (case find (selectQuery params) table of None \<Rightarrow> emptyRow | Some row \<Rightarrow> row)"

text \<open>
  \<^verbatim>\<open>save()\<close>. With a truthy id: \<^verbatim>\<open>UPDATE files SET ... WHERE id = ?\<close> of every column but
  the id, and the result is whether a row changed. Otherwise \<^verbatim>\<open>INSERT\<close>: a \<^verbatim>\<open>null\<close> id
  is assigned by the engine (one more than the largest id), an explicit id (only 0 can
  reach this branch) is taken as it is and clashes if present. The result is the value
  returned, the mapper's row and the table.
\<close>

definition row_ids :: "Row list \<Rightarrow> nat list" where
  "row_ids table = concat (map (\<lambda>r. case r_id r of None \<Rightarrow> [] | Some i \<Rightarrow> [i]) table)"

definition lastInsertRowid :: "Row list \<Rightarrow> nat" where
  "lastInsertRowid table = Suc (fold max (row_ids table) 0)"

definition save :: "Row \<Rightarrow> Row list \<Rightarrow> (exn + bool) \<times> Row \<times> Row list" where
  "save row table =
     (if found row then
        (Inr (filter (\<lambda>r. r_id r = r_id row) table \<noteq> []), row,
         map (\<lambda>r. if r_id r = r_id row then row else r) table)
      else
        (case r_id row of
           None \<Rightarrow>
             (let row' = row\<lparr>r_id := Some (lastInsertRowid table)\<rparr>
              in (Inr True, row', table @ [row']))
         | Some i \<Rightarrow>
             if i \<in> set (row_ids table) then (Inl SqliteError, row, table)
             else (Inr True, row, table @ [row])))"

subsection \<open>The world outside the controller\<close>

text \<open>
  The index table, the disk (\<^verbatim>\<open>node:fs\<close>: file contents by path, the folders that
  exist, and which calls the operating system refuses), the log of
  \<^verbatim>\<open>cloudflare.purgeCache\<close> calls, the clocks and the random source.

  \<^verbatim>\<open>Database.ts\<close> is not among the sources: its \<^verbatim>\<open>now()\<close> and \<^verbatim>\<open>dateToSqlite\<close> are
  parameters of the world, as are the platform's digest and random bytes.
\<close>

record World =
  files :: "Row list"
  disk :: "string \<Rightarrow> string option"
  folders :: "string list"
  mkdir_fails :: "string \<Rightarrow> bool"
  writeFile_fails :: "string \<Rightarrow> bool"
  unlink_fails :: "string \<Rightarrow> bool"
  purged :: "string list list"
  now :: int
  Date_now :: nat
  dateToSqlite :: "int \<Rightarrow> int"
  digest :: "string \<Rightarrow> string \<Rightarrow> 8 word list"
  random :: "nat \<Rightarrow> 8 word"
  drawn :: nat

text \<open>
  Modelled from the spec: \<^verbatim>\<open>Cloudflare.purgeCache\<close> (\<^verbatim>\<open>Cloudflare.ts\<close> is not among the
  sources). The collaborator's contract is \<^verbatim>\<open>purge(urls)\<close>, a list of absolute URLs,
  answered by success or failure, and a failure is not fatal: a call is recorded with its
  URLs and throws nothing.
\<close>

definition purgeCache :: "string list \<Rightarrow> World \<Rightarrow> World" where
  "purgeCache urls w = w\<lparr>purged := purged w @ [urls]\<rparr>"

text \<open>
  \<^verbatim>\<open>try { await unlink(path) } catch (e) { }\<close>: a missing file or a refusal leaves the
  disk as it is, and nothing is thrown.
\<close>

definition unlink_quietly :: "string \<Rightarrow> World \<Rightarrow> World" where
  "unlink_quietly path w =
     (if unlink_fails w path \<or> disk w path = None then w
      else w\<lparr>disk := (disk w)(path := None)\<rparr>)"

subsection \<open>The controller instance\<close>

text \<open>
  A posted JSON value where the source tests its type and truthiness: a string, or some
  other value that is falsy (\<^verbatim>\<open>undefined\<close>, \<^verbatim>\<open>null\<close>, 0, \<^verbatim>\<open>false\<close>) or truthy.
\<close>

datatype jsval = Falsy | Str string | Truthy

text \<open>
  \<^verbatim>\<open>Controller.ts\<close> is not among the sources; the controller gives \<^verbatim>\<open>File\<close> the posted
  body \<^verbatim>\<open>this.post\<close> and the caller's row \<^verbatim>\<open>this.user.row\<close>. The fields below are the
  ones \<^verbatim>\<open>File.ts\<close> reads; \<^verbatim>\<open>post_encrypted\<close> is the truthiness of
  \<^verbatim>\<open>post.template.encrypted\<close>.
\<close>

record Post =
  post_filetype :: jsval
  post_filename :: jsval
  post_hash :: "string option"
  post_content :: string
  post_expiration :: "int option"
  post_encrypted :: bool

record UserRow =
  user_id :: "nat option"
  user_uid :: "string option"

record File =
  app :: App
  post :: Post
  user :: UserRow
  filename :: string
  extension :: string
  hash :: "string option"
  initialised :: bool
  file_mapper :: "Row option"
  cssFilename :: "string option"

text \<open>The constructor: \<^verbatim>\<open>this.hash = this.post.hash\<close>, the other fields at their defaults.\<close>

definition new_File :: "App \<Rightarrow> Post \<Rightarrow> UserRow \<Rightarrow> File" where
  "new_File a p u =
     \<lparr>app = a, post = p, user = u, filename = [], extension = [], hash = post_hash p,
      initialised = False, file_mapper = None, cssFilename = None\<rparr>"


record SuccessUrl =
  success :: bool
  url :: string

definition lower_alnum :: "char \<Rightarrow> bool" where
  "lower_alnum c = (c \<in> set ''abcdefghijklmnopqrstuvwxyz0123456789'')"

definition lower_hex :: "char \<Rightarrow> bool" where
  "lower_hex c = (c \<in> set ''abcdef0123456789'')"

definition checkPostFilenameAndExtension :: "File \<Rightarrow> (exn + unit) \<times> File" where
  "checkPostFilenameAndExtension this =
     (let this1 = this\<lparr>extension :=
            (case post_filetype (post this) of
               Str s \<Rightarrow> if s \<noteq> [] then s else ''Unknown''
             | _ \<Rightarrow> ''Unknown'')\<rparr>
      in if extension this1 \<notin> set fileExtensionWhitelist
         then (Inl (HTTPException (Code 415)), this1)
         else
           (case post_filename (post this1) of
              Falsy \<Rightarrow> (Inr (), this1)
            | Truthy \<Rightarrow> (Inl (HTTPException (Code 400)), this1)
            | Str s \<Rightarrow>
                if s = [] then (Inr (), this1)
                else
                  (let name = (if CHR ''.'' \<in> set s
                               then takeWhile (\<lambda>c. c \<noteq> CHR ''.'') s else s)
                   in if \<not> list_all lower_alnum name \<or> name = []
                      then (Inl (HTTPException (Code 400)), this1)
                      else (Inr (), this1\<lparr>filename := name\<rparr>))))"

definition getDisplayUrl :: "File \<Rightarrow> string" where
  "getDisplayUrl this = displayUrl (app this) (filename this) (extension this)"

definition getFileUrl :: "File \<Rightarrow> string" where
  "getFileUrl this = fileUrl (app this) (filename this) (extension this)"

definition returnSuccessUrl :: "File \<Rightarrow> SuccessUrl" where
  "returnSuccessUrl this = \<lparr>success = True, url = getDisplayUrl this\<rparr>"

definition getHashFilename :: "File \<Rightarrow> string \<Rightarrow> World \<Rightarrow> string \<times> World" where
  "getHashFilename this ext w =
     (getHashFilename_of (extension this) ext (random w) (drawn w),
      w\<lparr>drawn := drawn w + filenameLength (extension this) ext\<rparr>)"

text \<open>
  \<^verbatim>\<open>getCssFilename\<close>: \<^verbatim>\<open>this.user?.row?.uid || Date.now()\<close> appended to the salt; the
  number is appended in decimal. An empty memo or uid is falsy.
\<close>

definition computeCssFilename :: "File \<Rightarrow> World \<Rightarrow> string" where
  "computeCssFilename this w =
     shortHash (digest w) (hashSalt (app this) @
       (case user_uid (user this) of
          None \<Rightarrow> toString_radix 10 (Date_now w)
        | Some u \<Rightarrow> if u \<noteq> [] then u else toString_radix 10 (Date_now w)))"

definition getCssFilename :: "File \<Rightarrow> World \<Rightarrow> string \<times> File" where
  "getCssFilename this w =
     (case cssFilename this of
        None \<Rightarrow>
          (computeCssFilename this w, this\<lparr>cssFilename := Some (computeCssFilename this w)\<rparr>)
      | Some c \<Rightarrow>
          if c \<noteq> [] then (c, this)
          else (computeCssFilename this w,
                this\<lparr>cssFilename := Some (computeCssFilename this w)\<rparr>))"

subsection \<open>Identity resolution: \<^verbatim>\<open>initFile\<close>\<close>

text \<open>
  SQLite's \<^verbatim>\<open>LIKE\<close> with its defaults: \<^verbatim>\<open>%\<close> matches any run of characters, \<^verbatim>\<open>_\<close> any
  one character, and ASCII letters match without regard to case.
\<close>

definition lower_ascii :: "char \<Rightarrow> char" where
  "lower_ascii c =
     (if 65 \<le> (of_char c :: nat) \<and> (of_char c :: nat) \<le> 90
      then char_of ((of_char c :: nat) + 32) else c)"

fun like :: "string \<Rightarrow> string \<Rightarrow> bool" where
  "like [] [] = True"
| "like [] (c # s) = False"
| "like (p # ps) [] = (p = CHR ''%'' \<and> like ps [])"
| "like (p # ps) (c # s) =
     (if p = CHR ''%'' then like ps (c # s) \<or> like (p # ps) s
      else (p = CHR ''_'' \<or> lower_ascii p = lower_ascii c) \<and> like ps s)"

text \<open>
  \<^verbatim>\<open>SELECT filename, hash FROM files WHERE filetype = 'css' AND filename LIKE ? AND hash = ? LIMIT 1\<close>,
  read for its \<^verbatim>\<open>filename\<close>.
\<close>

definition existingCss_where :: "string \<Rightarrow> string \<Rightarrow> Row \<Rightarrow> bool" where
  "existingCss_where pattern h row =
     (r_filetype row = Some ''css''
      \<and> (case r_filename row of None \<Rightarrow> False | Some f \<Rightarrow> like pattern f)
      \<and> r_hash row = Some h)"

definition existingCss :: "string \<Rightarrow> string \<Rightarrow> Row list \<Rightarrow> string option" where
  "existingCss pattern h table =
     (case find (existingCss_where pattern h) table of
        None \<Rightarrow> None
      | Some row \<Rightarrow> r_filename row)"

text \<open>
  The column \<^verbatim>\<open>filename\<close> of a row that was found; the table declares it for every
  stored record, and a row without one reads as the empty name.
\<close>

definition row_filename :: "Row \<Rightarrow> string" where
  "row_filename row = (case r_filename row of None \<Rightarrow> [] | Some f \<Rightarrow> f)"

text \<open>
  The branches of \<^verbatim>\<open>initFile\<close> return \<open>Inr None\<close> when control falls through to the
  end of the method, \<open>Inr (Some u)\<close> when they \<^verbatim>\<open>return\<close> the value \<open>u\<close>, and \<open>Inl e\<close>
  when they throw.
\<close>

definition html_recheck :: "File \<Rightarrow> World \<Rightarrow> (exn + SuccessUrl option) \<times> File \<times> World" where
  "html_recheck this w =
     (let row = load [(filename_col, filename this), (filetype_col, extension this)] (files w);
          this' = this\<lparr>file_mapper := Some row\<rparr>
      in if found row \<and> r_users_id row \<noteq> user_id (user this')
         then (Inl (HTTPException (Code 403)), this', w)
         else (Inr None, this', w))"

text \<open>\<^verbatim>\<open>this.filename = await this.getHashFilename(this.extension)\<close>\<close>

definition assignHashFilename :: "File \<Rightarrow> World \<Rightarrow> File \<times> World" where
  "assignHashFilename this w =
     (this\<lparr>filename := fst (getHashFilename this (extension this) w)\<rparr>,
      snd (getHashFilename this (extension this) w))"

definition initFile_html :: "bool \<Rightarrow> File \<Rightarrow> World \<Rightarrow> (exn + SuccessUrl option) \<times> File \<times> World" where
  "initFile_html createIfNotExist this w =
     (let userProvidedName = (filename this \<noteq> [])
      in if \<not> userProvidedName \<and> \<not> createIfNotExist
         then (Inl (HTTPException (Code 400)), this, w)
         else
           (let (this1, w1) =
                  (if \<not> userProvidedName \<and> createIfNotExist then assignHashFilename this w
                   else (this, w));
                row = load [(filename_col, filename this1), (filetype_col, extension this1)]
                        (files w1);
                this2 = this1\<lparr>file_mapper := Some row\<rparr>
            in if found row \<and> r_users_id row \<noteq> user_id (user this2) then
                 (if createIfNotExist
                  then html_recheck (fst (assignHashFilename this2 w1)) (snd (assignHashFilename this2 w1))
                  else (Inl (HTTPException (Code 403)), this2, w1))
               else if userProvidedName \<and> notFound row then
                 (if createIfNotExist
                  then html_recheck (fst (assignHashFilename this2 w1)) (snd (assignHashFilename this2 w1))
                  else (Inl (HTTPException (Code 403)), this2, w1))
               else html_recheck this2 w1))"

definition css_load :: "File \<Rightarrow> World \<Rightarrow> (exn + SuccessUrl option) \<times> File \<times> World" where
  "css_load this w =
     (Inr None,
      this\<lparr>file_mapper :=
        Some (load [(filetype_col, extension this), (filename_col, filename this)] (files w))\<rparr>,
      w)"

definition initFile_css :: "File \<Rightarrow> World \<Rightarrow> (exn + SuccessUrl option) \<times> File \<times> World" where
  "initFile_css this w =
     (let (cssFilename, this1) = getCssFilename this w
      in case hash this1 of
           None \<Rightarrow> css_load (this1\<lparr>filename := cssFilename\<rparr>) w
         | Some h \<Rightarrow>
             if h = [] then css_load (this1\<lparr>filename := cssFilename\<rparr>) w
             else
               (case existingCss (cssFilename @ ''%'') h (files w) of
                  Some f \<Rightarrow> css_load (this1\<lparr>filename := f\<rparr>) w
                | None \<Rightarrow> css_load (this1\<lparr>filename := cssFilename @ take 8 h\<rparr>) w))"

definition initFile_other :: "bool \<Rightarrow> File \<Rightarrow> World \<Rightarrow> (exn + SuccessUrl option) \<times> File \<times> World" where
  "initFile_other createIfNotExist this w =
     (let row = (case hash this of
                   None \<Rightarrow> emptyRow
                 | Some h \<Rightarrow> load [(filetype_col, extension this), (hash_col, h)] (files w));
          this1 = this\<lparr>file_mapper := Some row\<rparr>
      in if found row then
           (Inr (Some (returnSuccessUrl (this1\<lparr>filename := row_filename row\<rparr>))),
            this1\<lparr>filename := row_filename row\<rparr>, w)
         else if \<not> createIfNotExist then (Inl (HTTPException (Code 404)), this1, w)
         else (Inr None, fst (assignHashFilename this1 w), snd (assignHashFilename this1 w)))"

text \<open>
  \<^verbatim>\<open>this.hash?.length !== 40 || this.hash?.match(/[^a-f0-9]/)\<close>: a missing hash has
  no length 40.
\<close>

definition hash_rejected :: "string option \<Rightarrow> bool" where
  "hash_rejected h =
     (case h of None \<Rightarrow> True | Some s \<Rightarrow> length s \<noteq> 40 \<or> \<not> list_all lower_hex s)"

definition initFile :: "bool \<Rightarrow> File \<Rightarrow> World \<Rightarrow> (exn + SuccessUrl option) \<times> File \<times> World" where
  "initFile createIfNotExist this w =
     (if initialised this then (Inr None, this, w)
      else if hash_rejected (hash this) then (Inl (HTTPException (Code 463)), this, w)
      else
        (case checkPostFilenameAndExtension this of
           (Inl e, this1) \<Rightarrow> (Inl e, this1, w)
         | (Inr u, this1) \<Rightarrow>
             (case (let this2 = this1\<lparr>file_mapper := Some emptyRow\<rparr>
                    in if extension this2 = ''html'' then initFile_html createIfNotExist this2 w
                       else if extension this2 = ''css'' then initFile_css this2 w
                       else initFile_other createIfNotExist this2 w) of
                (Inl e, this3, w3) \<Rightarrow> (Inl e, this3, w3)
              | (Inr (Some res), this3, w3) \<Rightarrow> (Inr (Some res), this3, w3)
              | (Inr None, this3, w3) \<Rightarrow> (Inr None, this3\<lparr>initialised := True\<rparr>, w3))))"

subsection \<open>Persisting: \<^verbatim>\<open>saveFile\<close> and \<^verbatim>\<open>upload\<close>\<close>

text \<open>\<^verbatim>\<open>getExpiration\<close>: a missing or zero \<^verbatim>\<open>post.expiration\<close> is falsy.\<close>

definition getExpiration :: "File \<Rightarrow> World \<Rightarrow> int option" where
  "getExpiration this w =
     (case post_expiration (post this) of
        None \<Rightarrow> None
      | Some expires \<Rightarrow> if expires = 0 then None else Some (dateToSqlite w expires))"

text \<open>
  The two \<^verbatim>\<open>this.file.set({...})\<close> calls of \<^verbatim>\<open>saveFile\<close>: owner, name, type and
  creation time on a record that was not found, then the fields stamped on every save.
  Contents are strings of bytes, so \<^verbatim>\<open>bytes\<close> is their length in both cases of
  \<^verbatim>\<open>typeof contents === 'string' ? contents.length : contents.byteLength\<close>; for a
  JavaScript string with characters outside ASCII the two counts differ.
\<close>

definition set_fields :: "Row \<Rightarrow> string \<Rightarrow> File \<Rightarrow> World \<Rightarrow> Row" where
  "set_fields row contents this w =
     (let date = now w;
          row1 = (if notFound row
                  then row\<lparr>r_users_id := user_id (user this),
                           r_filename := Some (filename this),
                           r_filetype := Some (extension this),
                           r_created := Some date\<rparr>
                  else row)
      in row1\<lparr>r_bytes := Some (length contents),
               r_encrypted := Some (if post_encrypted (post this) then 1 else 0),
               r_expires := getExpiration this w,
               r_hash := hash this,
               r_updated := Some date\<rparr>)"

definition saveFile :: "string \<Rightarrow> File \<Rightarrow> World \<Rightarrow> (exn + Row) \<times> File \<times> World" where
  "saveFile contents this w =
     (case file_mapper this of
        None \<Rightarrow> (Inl (HTTPException (serverError FILE_FAILED_TO_INIT)), this, w)
      | Some row \<Rightarrow>
          (let folder = fullFilePath_folder (app this) (filename this) (extension this);
               filePath = fullFilePath_filePath (app this) (filename this) (extension this)
           in if folder \<notin> set (folders w) \<and> mkdir_fails w folder then (Inl FsError, this, w)
              else
                (let w1 = (if folder \<notin> set (folders w)
                           then w\<lparr>folders := folder # folders w\<rparr> else w)
                 in if writeFile_fails w1 filePath
                    then (Inl (HTTPException (serverError FILE_FAILED_TO_SAVE)), this, w1)
                    else
                      (let w2 = w1\<lparr>disk := (disk w1)(filePath := Some contents)\<rparr>;
                           w3 = purgeCache [getDisplayUrl this, getFileUrl this] w2
                       in case save (set_fields row contents this w3) (files w3) of
                            (Inl e, row3, table) \<Rightarrow>
                              (Inl e, this\<lparr>file_mapper := Some row3\<rparr>, w3\<lparr>files := table\<rparr>)
                          | (Inr saved, row3, table) \<Rightarrow>
                              if \<not> saved
                              then (Inl (HTTPException (serverError FILE_FAILED_TO_SAVE)),
                                    this\<lparr>file_mapper := Some row3\<rparr>, w3\<lparr>files := table\<rparr>)
                              else (Inr row3,
                                    this\<lparr>file_mapper := Some row3\<rparr>, w3\<lparr>files := table\<rparr>)))))"

text \<open>
  \<^verbatim>\<open>upload\<close> awaits \<^verbatim>\<open>initFile()\<close> and does not read the value it returns; whatever
  \<^verbatim>\<open>saveFile\<close> throws is caught and replaced.
\<close>

definition upload :: "File \<Rightarrow> World \<Rightarrow> (exn + SuccessUrl) \<times> File \<times> World" where
  "upload this w =
     (case initFile True this w of
        (Inl e, this1, w1) \<Rightarrow> (Inl e, this1, w1)
      | (Inr r, this1, w1) \<Rightarrow>
          (case saveFile (post_content (post this1)) this1 w1 of
             (Inl e, this2, w2) \<Rightarrow>
               (Inl (HTTPException (serverError FILE_FAILED_TO_UPLOAD)), this2, w2)
           | (Inr row, this2, w2) \<Rightarrow> (Inr (returnSuccessUrl this2), this2, w2)))"

subsection \<open>Deleting: \<^verbatim>\<open>deleteFile\<close>\<close>

text \<open>The result \<^verbatim>\<open>{ success: true }\<close> is its flag.\<close>

definition deleteFile :: "File \<Rightarrow> World \<Rightarrow> (exn + bool) \<times> File \<times> World" where
  "deleteFile this w =
     (if post_filetype (post this) \<noteq> Str ''html''
      then (Inl (HTTPException (Code 404)), this, w)
      else
        (case checkPostFilenameAndExtension this of
           (Inl e, this1) \<Rightarrow> (Inl e, this1, w)
         | (Inr u, this1) \<Rightarrow>
             (let row = load [(filename_col, filename this1), (filetype_col, extension this1)]
                          (files w);
                  this2 = this1\<lparr>file_mapper := Some row\<rparr>
              in if extension this2 = ''html'' \<and> found row
                    \<and> r_users_id row = user_id (user this2)
                 then
                   (let w1 = unlink_quietly
                               (fullFilePath_filePath (app this2) (filename this2) (extension this2)) w;
                        w2 = purgeCache [getDisplayUrl this2] w1;
                        w3 = w2\<lparr>files :=
                               filter (\<lambda>r. \<not> (r_filetype r = Some ''html''
                                               \<and> r_filename r = Some (filename this2)))
                                 (files w2)\<rparr>
                    in (Inr True, this2, w3))
                 else (Inr True, this2, w))))"

subsection \<open>Expiry sweeper: \<^verbatim>\<open>Cron.deleteExpiredFiles\<close>\<close>

text \<open>
  The receiver \<^verbatim>\<open>this\<close> of the method is \<open>Some\<close> Cron instance (its \<^verbatim>\<open>app\<close>; its
  \<^verbatim>\<open>paths\<close> is \<^verbatim>\<open>new Paths(app)\<close>), or \<open>None\<close> when the function runs detached from its
  instance: then \<^verbatim>\<open>this.paths\<close> is \<^verbatim>\<open>undefined\<close>, the \<^verbatim>\<open>TypeError\<close> of
  \<^verbatim>\<open>this.paths.fullFilePath\<close> is raised inside the \<^verbatim>\<open>try\<close> before \<^verbatim>\<open>unlink\<close> is called
  and is swallowed, and the one of \<^verbatim>\<open>this.paths.displayUrl\<close> is raised outside it and
  ends the loop.
\<close>

record Cron =
  cron_app :: App

text \<open>\<^verbatim>\<open>WHERE expires IS NOT NULL AND expires < unixepoch()\<close>\<close>

definition expired :: "int \<Rightarrow> Row \<Rightarrow> bool" where
  "expired unixepoch row = (case r_expires row of None \<Rightarrow> False | Some e \<Rightarrow> e < unixepoch)"

text \<open>\<^verbatim>\<open>DELETE FROM files WHERE id = ?\<close>: a \<^verbatim>\<open>NULL\<close> id equals nothing.\<close>

definition delete_by_id :: "nat option \<Rightarrow> Row list \<Rightarrow> Row list" where
  "delete_by_id i table = filter (\<lambda>r. \<not> (i \<noteq> None \<and> r_id r = i)) table"

text \<open>
  \<^verbatim>\<open>this.paths.fullFilePath(file.filename, file.filetype).filePath\<close> and
  \<^verbatim>\<open>this.paths.displayUrl(file.filename, file.filetype)\<close> of a selected row.
\<close>

definition sweep_path :: "Cron \<Rightarrow> Row \<Rightarrow> string" where
  "sweep_path c row = fullFilePath_filePath (cron_app c) (row_filename row)
     (case r_filetype row of None \<Rightarrow> [] | Some t \<Rightarrow> t)"

definition sweep_url :: "Cron \<Rightarrow> Row \<Rightarrow> string" where
  "sweep_url c row = displayUrl (cron_app c) (row_filename row)
     (case r_filetype row of None \<Rightarrow> [] | Some t \<Rightarrow> t)"

text \<open>The \<^verbatim>\<open>for\<close> loop over the selected rows.\<close>

fun sweep :: "Cron option \<Rightarrow> Row list \<Rightarrow> World \<Rightarrow> (exn + unit) \<times> World" where
  "sweep this [] w = (Inr (), w)"
| "sweep None (row # rows) w = (Inl TypeError, w)"
| "sweep (Some c) (row # rows) w =
     (let w1 = unlink_quietly (sweep_path c row) w;
          url = sweep_url c row;
          w2 = purgeCache [url] w1;
          w3 = w2\<lparr>files := delete_by_id (r_id row) (files w2)\<rparr>
      in sweep (Some c) rows w3)"

definition deleteExpiredFiles :: "Cron option \<Rightarrow> int \<Rightarrow> World \<Rightarrow> (exn + unit) \<times> World" where
  "deleteExpiredFiles this unixepoch w = sweep this (filter (expired unixepoch) (files w)) w"

text \<open>
  The constructor registers the tick with \<^verbatim>\<open>cron.schedule('* * * * *', this.deleteExpiredFiles)\<close>:
  the method is passed as a bare function value, not bound to the instance and not wrapped
  in a closure over it, so the scheduler has no Cron instance to call it on.
\<close>

definition scheduled_tick :: "int \<Rightarrow> World \<Rightarrow> (exn + unit) \<times> World" where
  "scheduled_tick unixepoch w = deleteExpiredFiles None unixepoch w"

section \<open>Predicates of the statements\<close>

text \<open>
  A record is one of the caller's stylesheet chunks with the given hash: its type is
  \<^verbatim>\<open>css\<close>, its hash is the given one, and its filename starts with the prefix, ASCII
  letters compared without regard to case (what \<^verbatim>\<open>LIKE prefix%\<close> amounts to for a
  prefix of hexadecimal digits).
\<close>

definition starts_with_ci :: "string \<Rightarrow> string \<Rightarrow> bool" where
  "starts_with_ci prefix f =
     (length prefix \<le> length f \<and> map lower_ascii (take (length prefix) f) = prefix)"

definition css_match :: "string \<Rightarrow> string \<Rightarrow> Row \<Rightarrow> bool" where
  "css_match prefix h row =
     (r_filetype row = Some ''css'' \<and> r_hash row = Some h
      \<and> (case r_filename row of None \<Rightarrow> False | Some f \<Rightarrow> starts_with_ci prefix f))"

section \<open>Example inputs\<close>

text \<open>Concrete requests and worlds on which the theorems below are exercised.\<close>

definition example_app :: App where
  "example_app = \<lparr>baseFolder = ''/notesx'', baseWebUrl = ''https://share.example'',
     hashSalt = ''pepper'', folderPrefix = Some 2\<rparr>"

text \<open>A stand-in for the platform's digest: 32 bytes that depend on the message.\<close>

definition example_digest :: "string \<Rightarrow> string \<Rightarrow> 8 word list" where
  "example_digest algorithm data =
     map (\<lambda>i. of_nat (sum_list (map of_char data) * 7 + i * 13)) [0 ..< 32]"

definition example_random :: "nat \<Rightarrow> 8 word" where
  "example_random i = of_nat (i * 37)"

definition empty_world :: World where
  "empty_world = \<lparr>files = [], disk = (\<lambda>p. None), folders = [],
     mkdir_fails = (\<lambda>p. False), writeFile_fails = (\<lambda>p. False), unlink_fails = (\<lambda>p. False),
     purged = [], now = 1700000000, Date_now = 1700000000123,
     dateToSqlite = (\<lambda>ms. ms div 1000), digest = example_digest,
     random = example_random, drawn = 0\<rparr>"

definition alice :: UserRow where
  "alice = \<lparr>user_id = Some 1, user_uid = Some ''uid-alice''\<rparr>"

definition bob :: UserRow where
  "bob = \<lparr>user_id = Some 2, user_uid = Some ''uid-bob''\<rparr>"

definition example_hash :: string where
  "example_hash = ''0123456789abcdef0123456789abcdef01234567''"

definition html_post :: Post where
  "html_post = \<lparr>post_filetype = Str ''html'', post_filename = Str ''abc123'',
     post_hash = Some example_hash, post_content = ''<p>hi</p>'',
     post_expiration = None, post_encrypted = False\<rparr>"

definition alice_note :: Row where
  "alice_note = \<lparr>r_id = Some 1, r_users_id = Some 1, r_filename = Some ''abc123'',
     r_filetype = Some ''html'', r_hash = Some example_hash, r_bytes = Some 9,
     r_encrypted = Some 0, r_created = Some 1690000000, r_updated = Some 1690000000,
     r_expires = None\<rparr>"

text \<open>A world in which alice's note \<^verbatim>\<open>abc123\<close> is stored.\<close>

definition note_world :: World where
  "note_world = empty_world\<lparr>files := [alice_note],
     disk := (\<lambda>p. if p = ''/notesx/userfiles/notes/ab/abc123.html'' then Some ''<p>hi</p>'' else None),
     folders := [''/notesx/userfiles/notes/ab'']\<rparr>"

text \<open>An instance of bob's whose identity is resolved to a new name.\<close>

definition ready_file :: File where
  "ready_file = (new_File example_app html_post bob)
     \<lparr>extension := ''html'', filename := ''05afkqv0'', file_mapper := Some emptyRow,
      initialised := True\<rparr>"

definition readonly_world :: World where
  "readonly_world = empty_world\<lparr>writeFile_fails := (\<lambda>p. True)\<rparr>"

text \<open>A second note of alice's, stored under the name bob's next draw produces.\<close>

definition alice_squat :: Row where
  "alice_squat = \<lparr>r_id = Some 2, r_users_id = Some 1, r_filename = Some ''05afkqv0'',
     r_filetype = Some ''html'', r_hash = Some example_hash, r_bytes = Some 9,
     r_encrypted = Some 0, r_created = Some 1690000000, r_updated = Some 1690000000,
     r_expires = None\<rparr>"

definition crowded_world :: World where
  "crowded_world = note_world\<lparr>files := [alice_note, alice_squat]\<rparr>"

text \<open>Requests for a generic asset, a stylesheet and a document without a name.\<close>

definition png_post :: Post where
  "png_post = \<lparr>post_filetype = Str ''png'', post_filename = Falsy,
     post_hash = Some example_hash, post_content = ''PNG-bytes'',
     post_expiration = None, post_encrypted = False\<rparr>"

definition css_post :: Post where
  "css_post = \<lparr>post_filetype = Str ''css'', post_filename = Falsy,
     post_hash = Some example_hash, post_content = ''body { }'',
     post_expiration = None, post_encrypted = False\<rparr>"

definition unnamed_html_post :: Post where
  "unnamed_html_post = html_post\<lparr>post_filename := Falsy\<rparr>"

text \<open>A shared image of alice's, and a request of bob's with its hash but other bytes.\<close>

definition shared_png :: Row where
  "shared_png = \<lparr>r_id = Some 1, r_users_id = Some 1, r_filename = Some ''k3x9q0aa11bb22cc33dd'',
     r_filetype = Some ''png'', r_hash = Some example_hash, r_bytes = Some 9,
     r_encrypted = Some 0, r_created = Some 1690000000, r_updated = Some 1690000000,
     r_expires = Some 1800000000\<rparr>"

definition asset_world :: World where
  "asset_world = empty_world\<lparr>files := [shared_png],
     disk := (\<lambda>p. if p = ''/notesx/userfiles/files/k3/k3x9q0aa11bb22cc33dd.png''
                  then Some ''PNG-bytes'' else None),
     folders := [''/notesx/userfiles/files/k3'']\<rparr>"

definition tampered_post :: Post where
  "tampered_post = png_post\<lparr>post_content := ''tampered!''\<rparr>"

text \<open>A note of alice's whose expiry has passed, and the world that stores it.\<close>

definition expired_note :: Row where
  "expired_note = alice_note\<lparr>r_expires := Some 1690000100\<rparr>"

definition expiry_world :: World where
  "expiry_world = note_world\<lparr>files := [expired_note]\<rparr>"

definition example_cron :: Cron where
  "example_cron = \<lparr>cron_app = example_app\<rparr>"






text \<open>A stylesheet request without a hash, and a world holding one chunk of bob's.\<close>

definition hashless_css_post :: Post where
  "hashless_css_post = css_post\<lparr>post_hash := None\<rparr>"

definition bob_css :: Row where
  "bob_css = \<lparr>r_id = Some 7, r_users_id = Some 2,
     r_filename = Some ''424f5c697683909daab7c4d1deebf80501234567'',
     r_filetype = Some ''css'', r_hash = Some example_hash, r_bytes = Some 8,
     r_encrypted = Some 0, r_created = Some 1690000000, r_updated = Some 1690000000,
     r_expires = None\<rparr>"

definition css_world :: World where
  "css_world = empty_world\<lparr>files := [alice_note, bob_css]\<rparr>"

section \<open>Verified properties\<close>

subsection \<open>Path resolution\<close>

lemma subdir_nat:
  "subdir (a\<lparr>folderPrefix := Some (int P)\<rparr>) f = (if P = 0 then [] else ''/'' @ take P f)"
  by (simp add: subdir_def substring0_def)

text \<open>
  Claim C7. For every filename \<open>f\<close>, filetype \<open>t\<close> and shard-prefix length \<open>P\<close>, the
  physical path is the base folder, \<^verbatim>\<open>/userfiles/\<close>, the bucket (\<^verbatim>\<open>notes\<close> for html,
  \<^verbatim>\<open>css\<close> for css, \<^verbatim>\<open>files\<close> otherwise), the first \<open>P\<close> characters of \<open>f\<close> as a shard
  segment (left out when \<open>P = 0\<close>), and \<open>f.t\<close>; the display URL of an html file is the
  base URL followed by \<open>/f\<close>. With \<open>P = 2\<close>, filename \<^verbatim>\<open>ab1234\<close> and filetype
  \<^verbatim>\<open>html\<close> the path is \<^verbatim>\<open>{baseFolder}/userfiles/notes/ab/ab1234.html\<close> and the URL
  \<^verbatim>\<open>{baseWebUrl}/ab1234\<close>.
\<close>

theorem path_resolution:
  "fullFilePath_filePath (a\<lparr>folderPrefix := Some (int P)\<rparr>) f t =
     baseFolder a @ ''/userfiles/''
       @ (if t = ''html'' then ''notes'' else if t = ''css'' then ''css'' else ''files'')
       @ (if P = 0 then [] else ''/'' @ take P f) @ ''/'' @ f @ ''.'' @ t
   \<and> displayUrl (a\<lparr>folderPrefix := Some (int P)\<rparr>) f ''html'' = baseWebUrl a @ ''/'' @ f
   \<and> fullFilePath_filePath (a\<lparr>folderPrefix := Some 2\<rparr>) ''ab1234'' ''html''
       = baseFolder a @ ''/userfiles/notes/ab/ab1234.html''
   \<and> displayUrl (a\<lparr>folderPrefix := Some 2\<rparr>) ''ab1234'' ''html'' = baseWebUrl a @ ''/ab1234''"
proof -
  have two: "subdir (a\<lparr>folderPrefix := Some 2\<rparr>) ''ab1234'' = ''/ab''"
    using subdir_nat [where a = a and P = 2 and f = "''ab1234''"] by simp
  show ?thesis
    by (simp add: fullFilePath_filePath_def fullFilePath_folder_def folderPath_def
        displayUrl_def subdir_nat two)
qed

subsection \<open>Random identifiers\<close>

lemma toString_radix_digit: "d < 36 \<Longrightarrow> toString_radix 36 d = [digits36 ! d]"
  by (simp add: toString_radix.simps)

lemma scale36_less: "scale36 b < 36"
proof -
  have "unat b < 2 ^ LENGTH(8)" by (rule unsigned_less)
  then have "unat b < 256" by simp
  then show ?thesis by (simp add: scale36_def)
qed

lemma scale36_eq: "scale36 b = (unat b * 36) div 256"
  by (simp add: scale36_def)

lemma name_loop_concat:
  "name_loop bs acc = acc @ concat (map (\<lambda>b. [digits36 ! scale36 b]) bs)"
  by (induction bs arbitrary: acc) (simp_all add: toString_radix_digit scale36_less)

lemma digits36_alnum: "d < 36 \<Longrightarrow> lower_alnum (digits36 ! d)"
proof -
  assume d: "d < 36"
  have len: "length digits36 = 36" by (simp add: digits36_def)
  from d len have "digits36 ! d \<in> set digits36" by (simp only: nth_mem)
  also have "set digits36 = set ''abcdefghijklmnopqrstuvwxyz0123456789''"
    by (auto simp: digits36_def)
  finally show ?thesis by (simp only: lower_alnum_def)
qed

lemma filenameLength_whitelist:
  "e \<in> set fileExtensionWhitelist \<Longrightarrow> filenameLength x e = (if e = ''html'' then 8 else 20)"
  by (auto simp: fileExtensionWhitelist_def filenameLength_def filenameLengths_def
      hydrate_extension_def)

lemma length_getRandomValues: "length (getRandomValues src pos n) = n"
  by (simp add: getRandomValues_def)

text \<open>
  Claim C9. For every whitelisted extension \<open>e\<close> and every random source,
  \<^verbatim>\<open>getHashFilename(e)\<close> draws \<open>n\<close> bytes, \<open>n = 8\<close> for \<^verbatim>\<open>html\<close> and \<open>n = 20\<close> otherwise,
  maps each byte \<open>b\<close> to the one base-36 digit \<open>\<lfloor>b \<cdot> 36 / 256\<rfloor>\<close> and concatenates them:
  the name has exactly \<open>n\<close> characters, each in \<^verbatim>\<open>[a-z0-9]\<close>.
\<close>

theorem getHashFilename_alnum:
  assumes "e \<in> set fileExtensionWhitelist"
  shows "fst (getHashFilename this e w) =
           concat (map (\<lambda>b. [digits36 ! ((unat b * 36) div 256)])
             (getRandomValues (random w) (drawn w) (if e = ''html'' then 8 else 20)))
       \<and> length (getRandomValues (random w) (drawn w) (if e = ''html'' then 8 else 20))
           = (if e = ''html'' then 8 else 20)
       \<and> length (fst (getHashFilename this e w)) = (if e = ''html'' then 8 else 20)
       \<and> list_all lower_alnum (fst (getHashFilename this e w))"
proof -
  let ?n = "if e = ''html'' then 8 else 20 :: nat"
  let ?bs = "getRandomValues (random w) (drawn w) ?n"
  have name: "fst (getHashFilename this e w) = concat (map (\<lambda>b. [digits36 ! scale36 b]) ?bs)"
    using assms
    by (simp add: getHashFilename_def getHashFilename_of_def name_loop_concat
        filenameLength_whitelist)
  have len: "length (concat (map (\<lambda>b. [digits36 ! scale36 b]) bs)) = length bs" for bs
    by (induction bs) simp_all
  have alnum: "list_all lower_alnum (concat (map (\<lambda>b. [digits36 ! scale36 b]) bs))" for bs
    by (induction bs) (simp_all add: digits36_alnum scale36_less)
  have c1: "fst (getHashFilename this e w) =
      concat (map (\<lambda>b. [digits36 ! ((unat b * 36) div 256)]) ?bs)"
    by (simp only: name scale36_eq)
  have c2: "length ?bs = ?n"
    by (rule length_getRandomValues)
  have c3: "length (fst (getHashFilename this e w)) = ?n"
    by (simp only: name len c2)
  have c4: "list_all lower_alnum (fst (getHashFilename this e w))"
    by (simp only: name alnum)
  from c1 c2 c3 c4 show ?thesis by blast
qed

lemma example_name:
  "fst (getHashFilename (new_File example_app html_post bob) ''html'' empty_world) = ''05afkqv0''"
  by (simp add: getHashFilename_def getHashFilename_of_def getRandomValues_def empty_world_def
      filenameLength_def filenameLengths_def hydrate_extension_def upt_rec
      toString_radix.simps scale36_def digits36_def example_random_def)

theorem getHashFilename_alnum_witness:
  "''html'' \<in> set fileExtensionWhitelist
   \<and> fst (getHashFilename (new_File example_app html_post bob) ''html'' empty_world) = ''05afkqv0''
   \<and> length (fst (getHashFilename (new_File example_app html_post bob) ''html'' empty_world)) = 8
   \<and> list_all lower_alnum (fst (getHashFilename (new_File example_app html_post bob) ''html'' empty_world))"
proof -
  have h: "''html'' \<in> set fileExtensionWhitelist"
    by (simp add: fileExtensionWhitelist_def)
  note t = getHashFilename_alnum [OF h, of "new_File example_app html_post bob" empty_world]
  from t [THEN conjunct2, THEN conjunct2, THEN conjunct1]
  have l: "length (fst (getHashFilename (new_File example_app html_post bob) ''html'' empty_world)) = 8"
    by simp
  from t [THEN conjunct2, THEN conjunct2, THEN conjunct2]
  have a: "list_all lower_alnum (fst (getHashFilename (new_File example_app html_post bob) ''html'' empty_world))"
    by simp
  from h l a example_name show ?thesis by blast
qed

subsection \<open>Request checks\<close>

lemma legacy_name: "(if CHR ''.'' \<in> set s then takeWhile (\<lambda>c. c \<noteq> CHR ''.'') s else s)
   = takeWhile (\<lambda>c. c \<noteq> CHR ''.'') s"
  by (induction s) auto



subsection \<open>Deleting\<close>

lemma check_named:
  assumes "post_filetype (post this) = Str t" and "t \<in> set fileExtensionWhitelist"
      and "post_filename (post this) = Str f"
      and "takeWhile (\<lambda>c. c \<noteq> CHR ''.'') f \<noteq> []"
      and "list_all lower_alnum (takeWhile (\<lambda>c. c \<noteq> CHR ''.'') f)"
  shows "checkPostFilenameAndExtension this =
           (Inr (), this\<lparr>extension := t, filename := takeWhile (\<lambda>c. c \<noteq> CHR ''.'') f\<rparr>)"
proof -
  have t: "t \<noteq> []" using assms(2) by (auto simp: fileExtensionWhitelist_def)
  have f: "f \<noteq> []" using assms(4) by auto
  show ?thesis
    using assms t f
    by (simp add: checkPostFilenameAndExtension_def Let_def legacy_name)
qed

text \<open>
  Claim C8. A delete request for a document whose record, looked up by
  (filename, \<^verbatim>\<open>html\<close>), exists but belongs to another user than the caller returns the
  success result and leaves the world as it was: no row is deleted, no file is unlinked
  and no cache purge is issued.
\<close>

theorem deleteFile_not_owner:
  assumes html: "post_filetype (post this) = Str ''html''"
      and posted: "post_filename (post this) = Str f"
      and nonempty: "takeWhile (\<lambda>c. c \<noteq> CHR ''.'') f \<noteq> []"
      and alnum: "list_all lower_alnum (takeWhile (\<lambda>c. c \<noteq> CHR ''.'') f)"
      and row: "load [(filename_col, takeWhile (\<lambda>c. c \<noteq> CHR ''.'') f), (filetype_col, ''html'')]
                  (files w) = row"
      and exists: "found row"
      and other: "r_users_id row \<noteq> user_id (user this)"
  shows "fst (deleteFile this w) = Inr True
       \<and> files (snd (snd (deleteFile this w))) = files w
       \<and> disk (snd (snd (deleteFile this w))) = disk w
       \<and> purged (snd (snd (deleteFile this w))) = purged w
       \<and> snd (snd (deleteFile this w)) = w"
proof -
  have wl: "''html'' \<in> set fileExtensionWhitelist" by (simp add: fileExtensionWhitelist_def)
  note chk = check_named [OF html wl posted nonempty alnum]
  show ?thesis
    using html row exists other
    by (simp add: deleteFile_def chk Let_def)
qed

theorem deleteFile_not_owner_witness:
  "found alice_note \<and> r_users_id alice_note \<noteq> user_id bob
   \<and> fst (deleteFile (new_File example_app html_post bob) note_world) = Inr True
   \<and> snd (snd (deleteFile (new_File example_app html_post bob) note_world)) = note_world"
proof -
  let ?F = "new_File example_app html_post bob"
  have h1: "post_filetype (post ?F) = Str ''html''"
    by (simp add: new_File_def html_post_def)
  have h2: "post_filename (post ?F) = Str ''abc123''"
    by (simp add: new_File_def html_post_def)
  have n: "takeWhile (\<lambda>c. c \<noteq> CHR ''.'') ''abc123'' = ''abc123''" by simp
  have h3: "takeWhile (\<lambda>c. c \<noteq> CHR ''.'') ''abc123'' \<noteq> []" by simp
  have h4: "list_all lower_alnum (takeWhile (\<lambda>c. c \<noteq> CHR ''.'') ''abc123'')"
    by (simp add: lower_alnum_def)
  have h5: "load [(filename_col, takeWhile (\<lambda>c. c \<noteq> CHR ''.'') ''abc123''), (filetype_col, ''html'')]
      (files note_world) = alice_note"
    by (simp add: load_def note_world_def selectQuery_def alice_note_def)
  have h6: "found alice_note" by (simp add: found_def alice_note_def)
  have h7: "r_users_id alice_note \<noteq> user_id (user ?F)"
    by (simp add: alice_note_def new_File_def bob_def)
  have h7': "r_users_id alice_note \<noteq> user_id bob"
    by (simp add: alice_note_def bob_def)
  from deleteFile_not_owner [OF h1 h2 h3 h4 h5 h6 h7] h6 h7'
  show ?thesis by blast
qed


subsection \<open>Persisting\<close>

text \<open>
  Claim C2. When \<^verbatim>\<open>saveFile\<close> reaches the file write and the write fails, it throws
  \<^verbatim>\<open>FILE_FAILED_TO_SAVE\<close> and the mapper's row, the table, the disk contents and the
  purge log are as before the call; and whenever a call of \<^verbatim>\<open>saveFile\<close> changes the
  table or the mapper's row, the write did not fail and the bytes are on disk: the
  upsert only runs after a successful write.
\<close>

theorem saveFile_write_failure:
  "(file_mapper this = Some row
     \<and> (fullFilePath_folder (app this) (filename this) (extension this) \<in> set (folders w)
        \<or> \<not> mkdir_fails w (fullFilePath_folder (app this) (filename this) (extension this)))
     \<and> writeFile_fails w (fullFilePath_filePath (app this) (filename this) (extension this))
    \<longrightarrow> fst (saveFile contents this w) = Inl (HTTPException (serverError FILE_FAILED_TO_SAVE))
      \<and> fst (snd (saveFile contents this w)) = this
      \<and> files (snd (snd (saveFile contents this w))) = files w
      \<and> disk (snd (snd (saveFile contents this w))) = disk w
      \<and> purged (snd (snd (saveFile contents this w))) = purged w)
   \<and> (files (snd (snd (saveFile contents this w))) \<noteq> files w
       \<or> file_mapper (fst (snd (saveFile contents this w))) \<noteq> file_mapper this
    \<longrightarrow> \<not> writeFile_fails w (fullFilePath_filePath (app this) (filename this) (extension this))
      \<and> disk (snd (snd (saveFile contents this w)))
           (fullFilePath_filePath (app this) (filename this) (extension this)) = Some contents)"
proof (intro conjI impI)
  assume a: "file_mapper this = Some row
     \<and> (fullFilePath_folder (app this) (filename this) (extension this) \<in> set (folders w)
        \<or> \<not> mkdir_fails w (fullFilePath_folder (app this) (filename this) (extension this)))
     \<and> writeFile_fails w (fullFilePath_filePath (app this) (filename this) (extension this))"
  then have r: "saveFile contents this w =
      (Inl (HTTPException (serverError FILE_FAILED_TO_SAVE)), this,
       if fullFilePath_folder (app this) (filename this) (extension this) \<notin> set (folders w)
       then w\<lparr>folders := fullFilePath_folder (app this) (filename this) (extension this) # folders w\<rparr>
       else w)"
    by (auto simp: saveFile_def Let_def)
  show "fst (saveFile contents this w) = Inl (HTTPException (serverError FILE_FAILED_TO_SAVE))"
    by (simp add: r)
  show "fst (snd (saveFile contents this w)) = this" by (simp add: r)
  show "files (snd (snd (saveFile contents this w))) = files w" by (simp add: r)
  show "disk (snd (snd (saveFile contents this w))) = disk w" by (simp add: r)
  show "purged (snd (snd (saveFile contents this w))) = purged w" by (simp add: r)
next
  assume c: "files (snd (snd (saveFile contents this w))) \<noteq> files w
       \<or> file_mapper (fst (snd (saveFile contents this w))) \<noteq> file_mapper this"
  show "\<not> writeFile_fails w (fullFilePath_filePath (app this) (filename this) (extension this))"
    using c by (auto simp: saveFile_def Let_def split: option.splits if_splits)
  show "disk (snd (snd (saveFile contents this w)))
           (fullFilePath_filePath (app this) (filename this) (extension this)) = Some contents"
    using c
    by (auto simp: saveFile_def Let_def purgeCache_def split: option.splits if_splits prod.splits sum.splits)
qed

lemma ready_path:
  "fullFilePath_filePath (app ready_file) (filename ready_file) (extension ready_file)
     = ''/notesx/userfiles/notes/05/05afkqv0.html''"
  "fullFilePath_folder (app ready_file) (filename ready_file) (extension ready_file)
     = ''/notesx/userfiles/notes/05''"
  by (simp_all add: ready_file_def new_File_def example_app_def fullFilePath_filePath_def
      fullFilePath_folder_def folderPath_def subdir_def substring0_def)

lemma ready_saved:
  "files (snd (snd (saveFile ''x'' ready_file empty_world))) =
     [\<lparr>r_id = Some 1, r_users_id = Some 2, r_filename = Some ''05afkqv0'',
       r_filetype = Some ''html'', r_hash = Some example_hash, r_bytes = Some 1,
       r_encrypted = Some 0, r_created = Some 1700000000, r_updated = Some 1700000000,
       r_expires = None\<rparr>]"
  by (simp add: saveFile_def set_fields_def Let_def ready_file_def new_File_def empty_world_def
        purgeCache_def notFound_def found_def emptyRow_def getExpiration_def html_post_def
        bob_def save_def lastInsertRowid_def row_ids_def example_app_def
        fullFilePath_filePath_def fullFilePath_folder_def folderPath_def subdir_def
        substring0_def)

theorem saveFile_write_failure_witness:
  "file_mapper ready_file = Some emptyRow
   \<and> writeFile_fails readonly_world ''/notesx/userfiles/notes/05/05afkqv0.html''
   \<and> fst (saveFile ''x'' ready_file readonly_world)
        = Inl (HTTPException (serverError FILE_FAILED_TO_SAVE))
   \<and> fst (snd (saveFile ''x'' ready_file readonly_world)) = ready_file
   \<and> files (snd (snd (saveFile ''x'' ready_file readonly_world))) = files readonly_world
   \<and> files (snd (snd (saveFile ''x'' ready_file empty_world))) \<noteq> files empty_world
   \<and> \<not> writeFile_fails empty_world ''/notesx/userfiles/notes/05/05afkqv0.html''
   \<and> disk (snd (snd (saveFile ''x'' ready_file empty_world)))
        ''/notesx/userfiles/notes/05/05afkqv0.html'' = Some ''x''"
proof -
  have h1: "file_mapper ready_file = Some emptyRow" by (simp add: ready_file_def)
  have h2: "\<not> mkdir_fails readonly_world
      (fullFilePath_folder (app ready_file) (filename ready_file) (extension ready_file))"
    by (simp add: readonly_world_def empty_world_def)
  have h3: "writeFile_fails readonly_world
      (fullFilePath_filePath (app ready_file) (filename ready_file) (extension ready_file))"
    by (simp add: readonly_world_def)
  have h4: "files (snd (snd (saveFile ''x'' ready_file empty_world))) \<noteq> files empty_world"
    by (simp add: ready_saved) (simp add: empty_world_def)
  from saveFile_write_failure [of ready_file emptyRow readonly_world "''x''", THEN conjunct1]
    h1 h2 h3
  have a: "fst (saveFile ''x'' ready_file readonly_world)
        = Inl (HTTPException (serverError FILE_FAILED_TO_SAVE))
      \<and> fst (snd (saveFile ''x'' ready_file readonly_world)) = ready_file
      \<and> files (snd (snd (saveFile ''x'' ready_file readonly_world))) = files readonly_world"
    by blast
  from saveFile_write_failure [of ready_file emptyRow empty_world "''x''", THEN conjunct2] h4
  have b: "\<not> writeFile_fails empty_world
        (fullFilePath_filePath (app ready_file) (filename ready_file) (extension ready_file))
      \<and> disk (snd (snd (saveFile ''x'' ready_file empty_world)))
        (fullFilePath_filePath (app ready_file) (filename ready_file) (extension ready_file))
          = Some ''x''"
    by blast
  from h1 h3 a h4 b show ?thesis by (simp only: ready_path) blast
qed

subsection \<open>Lookups and saves\<close>

lemma not_found_emptyRow: "\<not> found emptyRow"
  by (simp add: found_def emptyRow_def)

lemma find_Some_mem: "find P xs = Some x \<Longrightarrow> x \<in> set xs \<and> P x"
  by (induction xs) (auto split: if_splits)

lemma found_load_mem: "found (load ps t) \<Longrightarrow> load ps t \<in> set t"
proof (cases "find (selectQuery ps) t")
  case None
  assume "found (load ps t)"
  with None show ?thesis by (simp add: load_def not_found_emptyRow)
next
  case (Some r)
  then show ?thesis using find_Some_mem [OF Some] by (simp add: load_def)
qed

lemma found_load_select: "found (load ps t) \<Longrightarrow> selectQuery ps (load ps t)"
proof (cases "find (selectQuery ps) t")
  case None
  assume "found (load ps t)"
  with None show ?thesis by (simp add: load_def not_found_emptyRow)
next
  case (Some r)
  then show ?thesis using find_Some_mem [OF Some] by (simp add: load_def)
qed

lemma getHashFilename_of_length:
  "e \<in> set fileExtensionWhitelist \<Longrightarrow>
     length (getHashFilename_of x e src pos) = (if e = ''html'' then 8 else 20)"
proof -
  assume e: "e \<in> set fileExtensionWhitelist"
  have len: "length (concat (map (\<lambda>b. [digits36 ! scale36 b]) bs)) = length bs" for bs
    by (induction bs) simp_all
  show ?thesis
    by (simp add: getHashFilename_of_def name_loop_concat filenameLength_whitelist [OF e]
        len length_getRandomValues)
qed

lemma getHashFilename_of_alnum: "list_all lower_alnum (getHashFilename_of x e src pos)"
proof -
  have alnum: "list_all lower_alnum (map (\<lambda>b. digits36 ! scale36 b) bs)" for bs
    by (induction bs) (simp_all add: digits36_alnum scale36_less)
  show ?thesis
    by (simp add: getHashFilename_of_def name_loop_concat alnum)
qed

lemma row_ids_Cons:
  "row_ids (x # t) = (case r_id x of None \<Rightarrow> [] | Some i \<Rightarrow> [i]) @ row_ids t"
  by (simp add: row_ids_def)

lemma row_ids_mem: "r \<in> set t \<Longrightarrow> r_id r = Some i \<Longrightarrow> i \<in> set (row_ids t)"
  by (induction t) (auto simp: row_ids_Cons)

lemma distinct_row_ids:
  "distinct (row_ids t) \<Longrightarrow> a \<in> set t \<Longrightarrow> b \<in> set t \<Longrightarrow> r_id a = Some i
     \<Longrightarrow> r_id b = Some i \<Longrightarrow> a = b"
proof (induction t)
  case Nil
  then show ?case by simp
next
  case (Cons x t)
  from Cons.prems(1) have dt: "distinct (row_ids t)"
    by (simp add: row_ids_Cons)
  have fresh: "r_id x = Some i \<Longrightarrow> i \<notin> set (row_ids t)"
    using Cons.prems(1) by (simp add: row_ids_Cons)
  consider (both) "a = x" "b = x" | (left) "a = x" "b \<in> set t"
    | (right) "a \<in> set t" "b = x" | (tail) "a \<in> set t" "b \<in> set t"
    using Cons.prems(2,3) by auto
  then show ?case
  proof cases
    case both
    then show ?thesis by simp
  next
    case left
    with fresh Cons.prems(4) row_ids_mem [OF left(2) Cons.prems(5)] show ?thesis by simp
  next
    case right
    with fresh Cons.prems(5) row_ids_mem [OF right(1) Cons.prems(4)] show ?thesis by simp
  next
    case tail
    from Cons.IH [OF dt tail Cons.prems(4,5)] show ?thesis .
  qed
qed

lemma save_keeps_row:
  assumes "r \<in> set t" and "found m \<longrightarrow> r_id m \<noteq> r_id r"
  shows "r \<in> set (snd (snd (save m t)))"
  using assms by (auto simp: save_def Let_def split: option.splits)

lemma r_id_set_fields: "r_id (set_fields row c this w) = r_id row"
  by (simp add: set_fields_def Let_def)

lemma found_set_fields: "found (set_fields row c this w) = found row"
  by (simp add: found_def r_id_set_fields)

lemma files_case_save:
  "files (snd (snd (case sv of
       (Inl e, row3, table) \<Rightarrow> (Inl e, A row3, W\<lparr>files := table\<rparr>)
     | (Inr saved, row3, table) \<Rightarrow>
         if \<not> saved then (E, A row3, W\<lparr>files := table\<rparr>)
         else (Inr row3, A row3, W\<lparr>files := table\<rparr>)))) = snd (snd sv)"
  by (cases sv rule: prod_cases3) (simp split: sum.splits)

lemma saveFile_files:
  "file_mapper this = Some m \<Longrightarrow>
   files (snd (snd (saveFile c this w))) = files w
   \<or> (\<exists>w'. files w' = files w
         \<and> files (snd (snd (saveFile c this w))) = snd (snd (save (set_fields m c this w') (files w))))"
proof -
  assume m: "file_mapper this = Some m"
  let ?folder = "fullFilePath_folder (app this) (filename this) (extension this)"
  let ?path = "fullFilePath_filePath (app this) (filename this) (extension this)"
  let ?w1 = "if ?folder \<notin> set (folders w) then w\<lparr>folders := ?folder # folders w\<rparr> else w"
  let ?w3 = "purgeCache [getDisplayUrl this, getFileUrl this]
               (?w1\<lparr>disk := (disk ?w1)(?path := Some c)\<rparr>)"
  have f3: "files ?w3 = files w" by (simp add: purgeCache_def)
  show ?thesis
  proof (cases "(?folder \<notin> set (folders w) \<and> mkdir_fails w ?folder) \<or> writeFile_fails ?w1 ?path")
    case True
    then have "files (snd (snd (saveFile c this w))) = files w"
      by (auto simp: saveFile_def m Let_def)
    then show ?thesis by simp
  next
    case False
    then have "files (snd (snd (saveFile c this w)))
        = snd (snd (save (set_fields m c this ?w3) (files ?w3)))"
      by (auto simp add: saveFile_def m Let_def files_case_save)
    with f3 show ?thesis by metis
  qed
qed

lemma saveFile_keeps_row:
  assumes m: "file_mapper this = Some m"
      and r: "r \<in> set (files w)"
      and ids: "found m \<longrightarrow> r_id m \<noteq> r_id r"
  shows "r \<in> set (files (snd (snd (saveFile c this w))))"
proof -
  have "r \<in> set (snd (snd (save (set_fields m c this w') (files w))))" for w'
    using r ids by (intro save_keeps_row) (simp_all add: found_set_fields r_id_set_fields)
  with saveFile_files [OF m, of c w] r show ?thesis by auto
qed

subsection \<open>Documents owned by another user\<close>

text \<open>
  Claim C3. A document request with \<^verbatim>\<open>createIfNotExist = true\<close> whose supplied filename
  matches a record of another user: \<^verbatim>\<open>initFile\<close> draws a fresh random name (eight
  characters of \<^verbatim>\<open>[a-z0-9]\<close>), looks that name up once more, throws 403 when the fresh
  name is again a record of another user, and otherwise resolves to the fresh name. In
  every outcome the table, the disk and the purge log are unchanged, so the other owner's
  record is still there; and when the table's ids are distinct it is still there after
  the \<^verbatim>\<open>saveFile\<close> that follows a successful resolution.
\<close>

theorem initFile_html_other_owner:
  assumes fresh_req: "\<not> initialised this"
      and hash_ok: "\<not> hash_rejected (hash this)"
      and html: "post_filetype (post this) = Str ''html''"
      and posted: "post_filename (post this) = Str f"
      and nonempty: "takeWhile (\<lambda>c. c \<noteq> CHR ''.'') f \<noteq> []"
      and alnum: "list_all lower_alnum (takeWhile (\<lambda>c. c \<noteq> CHR ''.'') f)"
      and row: "load [(filename_col, takeWhile (\<lambda>c. c \<noteq> CHR ''.'') f), (filetype_col, ''html'')]
                  (files w) = row"
      and exists: "found row"
      and other: "r_users_id row \<noteq> user_id (user this)"
      and fresh: "fresh = getHashFilename_of ''html'' ''html'' (random w) (drawn w)"
      and row2: "row2 = load [(filename_col, fresh), (filetype_col, ''html'')] (files w)"
  shows "(found row2 \<and> r_users_id row2 \<noteq> user_id (user this)
           \<longrightarrow> fst (initFile True this w) = Inl (HTTPException (Code 403)))
       \<and> (\<not> (found row2 \<and> r_users_id row2 \<noteq> user_id (user this))
           \<longrightarrow> fst (initFile True this w) = Inr None
             \<and> filename (fst (snd (initFile True this w))) = fresh
             \<and> file_mapper (fst (snd (initFile True this w))) = Some row2
             \<and> initialised (fst (snd (initFile True this w))))
       \<and> length fresh = 8 \<and> list_all lower_alnum fresh
       \<and> files (snd (snd (initFile True this w))) = files w
       \<and> disk (snd (snd (initFile True this w))) = disk w
       \<and> purged (snd (snd (initFile True this w))) = purged w
       \<and> row \<in> set (files (snd (snd (initFile True this w))))
       \<and> (distinct (row_ids (files w)) \<and> fst (initFile True this w) = Inr None
           \<longrightarrow> row \<in> set (files (snd (snd (saveFile contents
                                (fst (snd (initFile True this w)))
                                (snd (snd (initFile True this w))))))))"
proof -
  have wl: "''html'' \<in> set fileExtensionWhitelist" by (simp add: fileExtensionWhitelist_def)
  note chk = check_named [OF html wl posted nonempty alnum]
  let ?this2 = "this\<lparr>extension := ''html'', filename := takeWhile (\<lambda>c. c \<noteq> CHR ''.'') f,
                     file_mapper := Some emptyRow\<rparr>"
  have branch: "initFile_html True ?this2 w =
      (if found row2 \<and> r_users_id row2 \<noteq> user_id (user this)
       then (Inl (HTTPException (Code 403)),
             ?this2\<lparr>file_mapper := Some row, filename := fresh, file_mapper := Some row2\<rparr>,
             w\<lparr>drawn := drawn w + 8\<rparr>)
       else (Inr None,
             ?this2\<lparr>file_mapper := Some row, filename := fresh, file_mapper := Some row2\<rparr>,
             w\<lparr>drawn := drawn w + 8\<rparr>))"
    using nonempty row exists other fresh row2
    by (simp add: initFile_html_def Let_def assignHashFilename_def getHashFilename_def
        html_recheck_def filenameLength_whitelist [OF wl])
  have init: "initFile True this w =
      (if found row2 \<and> r_users_id row2 \<noteq> user_id (user this)
       then (Inl (HTTPException (Code 403)),
             ?this2\<lparr>file_mapper := Some row, filename := fresh, file_mapper := Some row2\<rparr>,
             w\<lparr>drawn := drawn w + 8\<rparr>)
       else (Inr None,
             ?this2\<lparr>file_mapper := Some row, filename := fresh, file_mapper := Some row2,
                     initialised := True\<rparr>,
             w\<lparr>drawn := drawn w + 8\<rparr>))"
    using fresh_req hash_ok
    by (simp add: initFile_def chk branch)
  have mem: "row \<in> set (files w)"
    using found_load_mem [of "[(filename_col, takeWhile (\<lambda>c. c \<noteq> CHR ''.'') f), (filetype_col, ''html'')]" "files w"]
      row exists by simp
  have len: "length fresh = 8"
    using getHashFilename_of_length [OF wl, of "''html''" "random w" "drawn w"] fresh by simp
  have aln: "list_all lower_alnum fresh"
    using getHashFilename_of_alnum [of "''html''" "''html''" "random w" "drawn w"] fresh by simp
  have persist: "row \<in> set (files (snd (snd (saveFile contents
                                (fst (snd (initFile True this w)))
                                (snd (snd (initFile True this w)))))))"
    if d: "distinct (row_ids (files w))" and ok: "fst (initFile True this w) = Inr None"
  proof -
    from ok have mine: "\<not> (found row2 \<and> r_users_id row2 \<noteq> user_id (user this))"
      by (auto simp: init split: if_splits)
    have ids: "found row2 \<longrightarrow> r_id row2 \<noteq> r_id row"
    proof (intro impI notI)
      assume f2: "found row2" and same: "r_id row2 = r_id row"
      from f2 obtain i where i: "r_id row2 = Some i"
        by (auto simp: found_def split: option.splits)
      from f2 have m2: "row2 \<in> set (files w)"
        unfolding row2 by (rule found_load_mem)
      from distinct_row_ids [OF d m2 mem i] same i have "row2 = row" by simp
      with mine f2 other show False by simp
    qed
    from mine have fm: "file_mapper (fst (snd (initFile True this w))) = Some row2"
      and fw: "files (snd (snd (initFile True this w))) = files w"
      by (simp_all add: init)
    from mem fw have "row \<in> set (files (snd (snd (initFile True this w))))" by simp
    from saveFile_keeps_row [OF fm this ids] show ?thesis .
  qed
  show ?thesis
    using persist by (simp add: init len aln mem)
qed

lemma example_fresh:
  "getHashFilename_of ''html'' ''html'' example_random 0 = ''05afkqv0''"
  by (simp add: getHashFilename_of_def getRandomValues_def
      filenameLength_def filenameLengths_def hydrate_extension_def upt_rec
      toString_radix.simps scale36_def digits36_def example_random_def)

theorem initFile_html_other_owner_witness:
  "found alice_note \<and> r_users_id alice_note \<noteq> user_id bob
   \<and> fst (initFile True (new_File example_app html_post bob) note_world) = Inr None
   \<and> filename (fst (snd (initFile True (new_File example_app html_post bob) note_world)))
        = ''05afkqv0''
   \<and> files (snd (snd (initFile True (new_File example_app html_post bob) note_world)))
        = [alice_note]
   \<and> alice_note \<in> set (files (snd (snd (saveFile ''<p>new</p>''
         (fst (snd (initFile True (new_File example_app html_post bob) note_world)))
         (snd (snd (initFile True (new_File example_app html_post bob) note_world)))))))
   \<and> fst (initFile True (new_File example_app html_post bob) crowded_world)
        = Inl (HTTPException (Code 403))
   \<and> files (snd (snd (initFile True (new_File example_app html_post bob) crowded_world)))
        = [alice_note, alice_squat]"
proof -
  let ?F = "new_File example_app html_post bob"
  have h1: "\<not> initialised ?F" by (simp add: new_File_def)
  have h2: "\<not> hash_rejected (hash ?F)"
    by (simp add: new_File_def html_post_def hash_rejected_def example_hash_def lower_hex_def)
  have h3: "post_filetype (post ?F) = Str ''html''" by (simp add: new_File_def html_post_def)
  have h4: "post_filename (post ?F) = Str ''abc123''" by (simp add: new_File_def html_post_def)
  have h5: "takeWhile (\<lambda>c. c \<noteq> CHR ''.'') ''abc123'' \<noteq> []" by simp
  have h6: "list_all lower_alnum (takeWhile (\<lambda>c. c \<noteq> CHR ''.'') ''abc123'')"
    by (simp add: lower_alnum_def)
  have h7: "load [(filename_col, takeWhile (\<lambda>c. c \<noteq> CHR ''.'') ''abc123''), (filetype_col, ''html'')]
      (files note_world) = alice_note"
    by (simp add: load_def note_world_def selectQuery_def alice_note_def)
  have h7c: "load [(filename_col, takeWhile (\<lambda>c. c \<noteq> CHR ''.'') ''abc123''), (filetype_col, ''html'')]
      (files crowded_world) = alice_note"
    by (simp add: load_def crowded_world_def selectQuery_def alice_note_def)
  have h8: "found alice_note" by (simp add: found_def alice_note_def)
  have h9: "r_users_id alice_note \<noteq> user_id (user ?F)"
    by (simp add: alice_note_def new_File_def bob_def)
  have h9': "r_users_id alice_note \<noteq> user_id bob" by (simp add: alice_note_def bob_def)
  have h10: "''05afkqv0'' = getHashFilename_of ''html'' ''html'' (random note_world) (drawn note_world)"
    by (simp add: note_world_def empty_world_def example_fresh)
  have h10c: "''05afkqv0'' = getHashFilename_of ''html'' ''html'' (random crowded_world) (drawn crowded_world)"
    by (simp add: crowded_world_def note_world_def empty_world_def example_fresh)
  have h11: "emptyRow = load [(filename_col, ''05afkqv0''), (filetype_col, ''html'')] (files note_world)"
    by (simp add: load_def note_world_def selectQuery_def alice_note_def)
  have h11c: "alice_squat = load [(filename_col, ''05afkqv0''), (filetype_col, ''html'')] (files crowded_world)"
    by (simp add: load_def crowded_world_def selectQuery_def alice_note_def alice_squat_def)
  have fw: "files note_world = [alice_note]" by (simp add: note_world_def)
  have fc: "files crowded_world = [alice_note, alice_squat]" by (simp add: crowded_world_def)
  have d: "distinct (row_ids (files note_world))"
    by (simp add: fw row_ids_def alice_note_def)
  have sq: "found alice_squat \<and> r_users_id alice_squat \<noteq> user_id (user ?F)"
    by (simp add: found_def alice_squat_def new_File_def bob_def)
  note a = initFile_html_other_owner [OF h1 h2 h3 h4 h5 h6 h7 h8 h9 h10 h11, of "''<p>new</p>''"]
  note b = initFile_html_other_owner [OF h1 h2 h3 h4 h5 h6 h7c h8 h9 h10c h11c, of "''<p>new</p>''"]
  from a not_found_emptyRow have a1: "fst (initFile True ?F note_world) = Inr None"
    and a2: "filename (fst (snd (initFile True ?F note_world))) = ''05afkqv0''"
    and a3: "files (snd (snd (initFile True ?F note_world))) = [alice_note]"
    by (simp_all add: fw)
  from a d a1 have a4: "alice_note \<in> set (files (snd (snd (saveFile ''<p>new</p>''
         (fst (snd (initFile True ?F note_world))) (snd (snd (initFile True ?F note_world)))))))"
    by blast
  from b sq have b1: "fst (initFile True ?F crowded_world) = Inl (HTTPException (Code 403))"
    and b2: "files (snd (snd (initFile True ?F crowded_world))) = [alice_note, alice_squat]"
    by (simp_all add: fc)
  from h8 h9' a1 a2 a3 a4 b1 b2 show ?thesis by blast
qed

subsection \<open>Resolution without permission to create\<close>

lemma initFile_css_ok: "\<exists>t. initFile_css this w = (Inr None, t, w)"
  by (simp add: initFile_css_def css_load_def split: prod.splits option.splits)

text \<open>
  Claim C6, as amended. With \<^verbatim>\<open>createIfNotExist = false\<close>, on a request that passes the
  hash and filename checks: a generic asset (neither \<^verbatim>\<open>html\<close> nor \<^verbatim>\<open>css\<close>) with no
  record of its (filetype, hash) is rejected with 404; a document whose supplied filename
  has no record is rejected with 403, and one without a filename with 400; a stylesheet
  is not rejected, \<^verbatim>\<open>createIfNotExist\<close> is not read on that branch and the resolution
  completes. In every case the world is left as it was.
\<close>

theorem initFile_without_create:
  assumes fresh_req: "\<not> initialised this"
      and h: "hash this = Some h"
      and hash_ok: "\<not> hash_rejected (Some h)"
      and chk: "checkPostFilenameAndExtension this = (Inr (), this1)"
  shows "(extension this1 \<noteq> ''html'' \<and> extension this1 \<noteq> ''css''
            \<and> notFound (load [(filetype_col, extension this1), (hash_col, h)] (files w))
          \<longrightarrow> fst (initFile False this w) = Inl (HTTPException (Code 404)))
       \<and> (extension this1 = ''html'' \<and> filename this1 \<noteq> []
            \<and> notFound (load [(filename_col, filename this1), (filetype_col, ''html'')] (files w))
          \<longrightarrow> fst (initFile False this w) = Inl (HTTPException (Code 403)))
       \<and> (extension this1 = ''html'' \<and> filename this1 = []
          \<longrightarrow> fst (initFile False this w) = Inl (HTTPException (Code 400)))
       \<and> (extension this1 = ''css''
          \<longrightarrow> fst (initFile False this w) = Inr None
            \<and> initialised (fst (snd (initFile False this w))))
       \<and> snd (snd (initFile False this w)) = w"
proof -
  have h1: "hash this1 = Some h"
    using chk h
    by (auto simp: checkPostFilenameAndExtension_def Let_def split: if_splits jsval.splits)
  have other: "fst (initFile False this w) = Inl (HTTPException (Code 404))"
    if "extension this1 \<noteq> ''html''" "extension this1 \<noteq> ''css''"
       "notFound (load [(filetype_col, extension this1), (hash_col, h)] (files w))"
    using that fresh_req h hash_ok h1
    by (simp add: initFile_def chk initFile_other_def Let_def notFound_def)
  have named: "fst (initFile False this w) = Inl (HTTPException (Code 403))"
    if "extension this1 = ''html''" "filename this1 \<noteq> []"
       "notFound (load [(filename_col, filename this1), (filetype_col, ''html'')] (files w))"
    using that fresh_req h hash_ok
    by (simp add: initFile_def chk initFile_html_def Let_def notFound_def)
  have unnamed: "fst (initFile False this w) = Inl (HTTPException (Code 400))"
    if "extension this1 = ''html''" "filename this1 = []"
    using that fresh_req h hash_ok
    by (simp add: initFile_def chk initFile_html_def Let_def)
  obtain t where t: "initFile_css (this1\<lparr>file_mapper := Some emptyRow\<rparr>) w = (Inr None, t, w)"
    using initFile_css_ok by blast
  have css: "fst (initFile False this w) = Inr None
            \<and> initialised (fst (snd (initFile False this w)))"
    if "extension this1 = ''css''"
    using that fresh_req h hash_ok
    by (simp add: initFile_def chk t)
  have frame: "snd (snd (initFile False this w)) = w"
  proof (cases "extension this1 = ''css''")
    case True
    then show ?thesis
      using fresh_req h hash_ok
      by (simp add: initFile_def chk t)
  next
    case False
    then show ?thesis
      using fresh_req h hash_ok
      by (simp add: initFile_def chk initFile_html_def initFile_other_def html_recheck_def Let_def)
  qed
  from other named unnamed css frame show ?thesis by blast
qed

lemma example_hash_accepted: "\<not> hash_rejected (Some example_hash)"
  by (simp add: hash_rejected_def example_hash_def lower_hex_def)

lemma check_html_post:
  "checkPostFilenameAndExtension (new_File example_app html_post bob) =
     (Inr (), (new_File example_app html_post bob)\<lparr>extension := ''html'', filename := ''abc123''\<rparr>)"
  by (simp add: checkPostFilenameAndExtension_def new_File_def html_post_def Let_def
      fileExtensionWhitelist_def lower_alnum_def)

lemma check_unnamed_html_post:
  "checkPostFilenameAndExtension (new_File example_app unnamed_html_post bob) =
     (Inr (), (new_File example_app unnamed_html_post bob)\<lparr>extension := ''html''\<rparr>)"
  by (simp add: checkPostFilenameAndExtension_def new_File_def html_post_def Let_def
      unnamed_html_post_def fileExtensionWhitelist_def)

lemma check_png_post:
  "checkPostFilenameAndExtension (new_File example_app png_post bob) =
     (Inr (), (new_File example_app png_post bob)\<lparr>extension := ''png''\<rparr>)"
  by (simp add: checkPostFilenameAndExtension_def new_File_def png_post_def Let_def
      fileExtensionWhitelist_def)

lemma check_css_post:
  "checkPostFilenameAndExtension (new_File example_app css_post bob) =
     (Inr (), (new_File example_app css_post bob)\<lparr>extension := ''css''\<rparr>)"
  by (simp add: checkPostFilenameAndExtension_def new_File_def css_post_def Let_def
      fileExtensionWhitelist_def)

text \<open>
  Claim C6 as stated (404 for every category) fails: on an empty index, bob's document
  request for the name \<^verbatim>\<open>abc123\<close> is rejected with 403, and his stylesheet request is
  not rejected at all.
\<close>

theorem initFile_not_found_counterexample:
  "files empty_world = []
   \<and> fst (initFile False (new_File example_app html_post bob) empty_world)
       = Inl (HTTPException (Code 403))
   \<and> fst (initFile False (new_File example_app html_post bob) empty_world)
       \<noteq> Inl (HTTPException (Code 404))
   \<and> fst (initFile False (new_File example_app css_post bob) empty_world) = Inr None"
proof -
  have e: "files empty_world = []" by (simp add: empty_world_def)
  have hh: "hash (new_File example_app html_post bob) = Some example_hash"
    "\<not> initialised (new_File example_app html_post bob)"
    "hash (new_File example_app css_post bob) = Some example_hash"
    "\<not> initialised (new_File example_app css_post bob)"
    by (simp_all add: new_File_def html_post_def css_post_def)
  have a: "fst (initFile False (new_File example_app html_post bob) empty_world)
       = Inl (HTTPException (Code 403))"
    by (simp add: initFile_def hh example_hash_accepted check_html_post initFile_html_def
        Let_def e load_def found_def notFound_def emptyRow_def)
  obtain t where t: "initFile_css ((new_File example_app css_post bob)
      \<lparr>extension := ''css'', file_mapper := Some emptyRow\<rparr>) empty_world = (Inr None, t, empty_world)"
    using initFile_css_ok by blast
  have b: "fst (initFile False (new_File example_app css_post bob) empty_world) = Inr None"
    by (simp add: initFile_def hh example_hash_accepted check_css_post t)
  from e a b show ?thesis by simp
qed

theorem initFile_without_create_witness:
  "notFound (load [(filetype_col, ''png''), (hash_col, example_hash)] (files empty_world))
   \<and> fst (initFile False (new_File example_app png_post bob) empty_world)
       = Inl (HTTPException (Code 404))
   \<and> notFound (load [(filename_col, ''abc123''), (filetype_col, ''html'')] (files empty_world))
   \<and> fst (initFile False (new_File example_app html_post bob) empty_world)
       = Inl (HTTPException (Code 403))
   \<and> fst (initFile False (new_File example_app unnamed_html_post bob) empty_world)
       = Inl (HTTPException (Code 400))
   \<and> fst (initFile False (new_File example_app css_post bob) empty_world) = Inr None
   \<and> snd (snd (initFile False (new_File example_app css_post bob) empty_world)) = empty_world"
proof -
  have e: "files empty_world = []" by (simp add: empty_world_def)
  have nf: "notFound (load ps (files empty_world))" for ps
    by (simp add: e load_def notFound_def found_def emptyRow_def)
  have i: "\<not> initialised (new_File example_app p bob)" for p by (simp add: new_File_def)
  have hp: "hash (new_File example_app png_post bob) = Some example_hash"
    and hn: "hash (new_File example_app html_post bob) = Some example_hash"
    and hu: "hash (new_File example_app unnamed_html_post bob) = Some example_hash"
    and hc: "hash (new_File example_app css_post bob) = Some example_hash"
    by (simp_all add: new_File_def png_post_def html_post_def unnamed_html_post_def css_post_def)
  note p = initFile_without_create [OF i hp example_hash_accepted check_png_post, of empty_world]
  note n = initFile_without_create [OF i hn example_hash_accepted check_html_post, of empty_world]
  note u = initFile_without_create [OF i hu example_hash_accepted check_unnamed_html_post, of empty_world]
  note c = initFile_without_create [OF i hc example_hash_accepted check_css_post, of empty_world]
  from p nf have p1: "fst (initFile False (new_File example_app png_post bob) empty_world)
       = Inl (HTTPException (Code 404))"
    by simp
  from n nf have n1: "fst (initFile False (new_File example_app html_post bob) empty_world)
       = Inl (HTTPException (Code 403))"
    by simp
  from u have u1: "fst (initFile False (new_File example_app unnamed_html_post bob) empty_world)
       = Inl (HTTPException (Code 400))"
    by (simp add: new_File_def)
  from c have c1: "fst (initFile False (new_File example_app css_post bob) empty_world) = Inr None"
    and c2: "snd (snd (initFile False (new_File example_app css_post bob) empty_world)) = empty_world"
    by simp_all
  from nf p1 n1 u1 c1 c2 show ?thesis by blast
qed

subsection \<open>Uploading a generic asset that is already stored\<close>

text \<open>
  What \<^verbatim>\<open>initFile\<close> does on its own when the (filetype, hash) pair of a generic asset has
  a record: it takes the record's filename, returns the success result with the record's
  URL, and writes nothing.
\<close>

lemma initFile_asset_found:
  assumes "\<not> initialised this" and "hash this = Some h" and "\<not> hash_rejected (Some h)"
      and chk: "checkPostFilenameAndExtension this = (Inr (), this1)"
      and "extension this1 \<noteq> ''html''" and "extension this1 \<noteq> ''css''"
      and "row = load [(filetype_col, extension this1), (hash_col, h)] (files w)"
      and "found row"
  shows "initFile c this w =
           (Inr (Some \<lparr>success = True,
                        url = displayUrl (app this1) (row_filename row) (extension this1)\<rparr>),
            this1\<lparr>file_mapper := Some row, filename := row_filename row\<rparr>, w)"
proof -
  have "hash this1 = Some h"
    using chk assms(2)
    by (auto simp: checkPostFilenameAndExtension_def Let_def split: if_splits jsval.splits)
  then show ?thesis
    using assms
    by (simp add: initFile_def initFile_other_def Let_def returnSuccessUrl_def getDisplayUrl_def)
qed

lemmas upload_eval =
  upload_def initFile_def hash_rejected_def example_hash_def lower_hex_def new_File_def
  png_post_def tampered_post_def
  checkPostFilenameAndExtension_def fileExtensionWhitelist_def Let_def
  initFile_other_def load_def selectQuery_def asset_world_def shared_png_def found_def
  row_filename_def returnSuccessUrl_def getDisplayUrl_def displayUrl_def fileUrl_def
  folderPath_def subdir_def substring0_def example_app_def
  saveFile_def empty_world_def set_fields_def notFound_def getExpiration_def save_def
  purgeCache_def getFileUrl_def fullFilePath_filePath_def fullFilePath_folder_def bob_def

text \<open>
  Claim C1 on the code. \<^verbatim>\<open>upload\<close> does not read what \<^verbatim>\<open>initFile\<close> returned and goes
  on to \<^verbatim>\<open>saveFile\<close>. Bob uploads a \<^verbatim>\<open>png\<close> whose hash is that of alice's stored
  image: the URL returned is the stored record's and no second row appears, but the
  stored row is rewritten (its expiry is cleared and its update time stamped), the cache
  is purged, and the file is written again; when bob's bytes differ from the stored ones
  (the hash is the caller's word), they replace them.
\<close>

theorem upload_existing_asset_rewrites:
  "fst (upload (new_File example_app png_post bob) asset_world)
     = Inr \<lparr>success = True, url = ''https://share.example/files/k3/k3x9q0aa11bb22cc33dd.png''\<rparr>
   \<and> files (snd (snd (upload (new_File example_app png_post bob) asset_world)))
     = [shared_png\<lparr>r_expires := None, r_updated := Some 1700000000\<rparr>]
   \<and> purged (snd (snd (upload (new_File example_app png_post bob) asset_world)))
     = [[''https://share.example/files/k3/k3x9q0aa11bb22cc33dd.png'',
         ''https://share.example/files/k3/k3x9q0aa11bb22cc33dd.png'']]
   \<and> disk asset_world ''/notesx/userfiles/files/k3/k3x9q0aa11bb22cc33dd.png'' = Some ''PNG-bytes''
   \<and> disk (snd (snd (upload (new_File example_app tampered_post bob) asset_world)))
        ''/notesx/userfiles/files/k3/k3x9q0aa11bb22cc33dd.png'' = Some ''tampered!''"
proof (intro conjI)
  show "fst (upload (new_File example_app png_post bob) asset_world)
     = Inr \<lparr>success = True, url = ''https://share.example/files/k3/k3x9q0aa11bb22cc33dd.png''\<rparr>"
    by (simp add: upload_eval)
  show "files (snd (snd (upload (new_File example_app png_post bob) asset_world)))
     = [shared_png\<lparr>r_expires := None, r_updated := Some 1700000000\<rparr>]"
    by (simp add: upload_eval)
  show "purged (snd (snd (upload (new_File example_app png_post bob) asset_world)))
     = [[''https://share.example/files/k3/k3x9q0aa11bb22cc33dd.png'',
         ''https://share.example/files/k3/k3x9q0aa11bb22cc33dd.png'']]"
    by (simp add: upload_eval)
  show "disk asset_world ''/notesx/userfiles/files/k3/k3x9q0aa11bb22cc33dd.png'' = Some ''PNG-bytes''"
    by (simp add: asset_world_def)
  show "disk (snd (snd (upload (new_File example_app tampered_post bob) asset_world)))
        ''/notesx/userfiles/files/k3/k3x9q0aa11bb22cc33dd.png'' = Some ''tampered!''"
    by (simp add: upload_eval)
qed

subsection \<open>The expiry sweeper\<close>

text \<open>
  The method body, run on its Cron instance: every selected row is processed, nothing is
  thrown, each row's display URL is purged in order, and the rows are deleted by the ids
  they were selected with.
\<close>

lemma sweep_bound:
  "fst (sweep (Some c) rows w) = Inr ()
   \<and> files (snd (sweep (Some c) rows w))
       = fold (\<lambda>row table. delete_by_id (r_id row) table) rows (files w)
   \<and> purged (snd (sweep (Some c) rows w)) = purged w @ map (\<lambda>row. [sweep_url c row]) rows
   \<and> disk (snd (sweep (Some c) rows w))
       = (\<lambda>p. if p \<in> sweep_path c ` set rows \<and> \<not> unlink_fails w p then None else disk w p)
   \<and> unlink_fails (snd (sweep (Some c) rows w)) = unlink_fails w"
proof (induction rows arbitrary: w)
  case Nil
  then show ?case by simp
next
  case (Cons row rows)
  let ?w3 = "(purgeCache [sweep_url c row] (unlink_quietly (sweep_path c row) w))
               \<lparr>files := delete_by_id (r_id row)
                   (files (purgeCache [sweep_url c row] (unlink_quietly (sweep_path c row) w)))\<rparr>"
  have step: "sweep (Some c) (row # rows) w = sweep (Some c) rows ?w3"
    by (simp add: Let_def)
  have f: "files ?w3 = delete_by_id (r_id row) (files w)"
    and p: "purged ?w3 = purged w @ [[sweep_url c row]]"
    and u: "unlink_fails ?w3 = unlink_fails w"
    and d: "disk ?w3 = (\<lambda>p. if p = sweep_path c row \<and> \<not> unlink_fails w p then None else disk w p)"
    by (auto simp: purgeCache_def unlink_quietly_def)
  show ?case
    unfolding step using Cons.IH [of ?w3]
    by (auto simp: f p u d)
qed

lemma fold_delete_by_id:
  "fold (\<lambda>row table. delete_by_id (r_id row) table) rows t
     = filter (\<lambda>r. \<not> list_ex (\<lambda>row. r_id row \<noteq> None \<and> r_id r = r_id row) rows) t"
proof (induction rows arbitrary: t)
  case Nil
  then show ?case by simp
next
  case (Cons row rows)
  have "fold (\<lambda>row table. delete_by_id (r_id row) table) (row # rows) t
      = fold (\<lambda>row table. delete_by_id (r_id row) table) rows (delete_by_id (r_id row) t)"
    by simp
  also have "\<dots> = filter (\<lambda>r. \<not> list_ex (\<lambda>row. r_id row \<noteq> None \<and> r_id r = r_id row) rows)
      (delete_by_id (r_id row) t)"
    by (rule Cons.IH)
  also have "\<dots> = filter (\<lambda>r. \<not> list_ex (\<lambda>row. r_id row \<noteq> None \<and> r_id r = r_id row) (row # rows)) t"
    unfolding delete_by_id_def filter_filter by (rule filter_cong) auto
  finally show ?case .
qed

text \<open>
  With distinct, non-null ids, a tick of the method on its instance leaves exactly the
  rows that are not expired.
\<close>

lemma deleteExpiredFiles_bound:
  assumes d: "distinct (row_ids (files w))"
      and n: "list_all (\<lambda>r. r_id r \<noteq> None) (files w)"
  shows "fst (deleteExpiredFiles (Some c) t w) = Inr ()
       \<and> files (snd (deleteExpiredFiles (Some c) t w)) = filter (\<lambda>r. \<not> expired t r) (files w)
       \<and> purged (snd (deleteExpiredFiles (Some c) t w))
           = purged w @ map (\<lambda>row. [sweep_url c row]) (filter (expired t) (files w))"
proof -
  have iff: "list_ex (\<lambda>row. r_id row \<noteq> None \<and> r_id r = r_id row) (filter (expired t) (files w))
      \<longleftrightarrow> expired t r" if r: "r \<in> set (files w)" for r
  proof
    assume "list_ex (\<lambda>row. r_id row \<noteq> None \<and> r_id r = r_id row) (filter (expired t) (files w))"
    then obtain row where row: "row \<in> set (files w)" "expired t row" "r_id row \<noteq> None"
      "r_id r = r_id row"
      by (auto simp: list_ex_iff)
    from row(3) obtain i where "r_id row = Some i" by auto
    with distinct_row_ids [OF d r row(1), of i] row(4) have "r = row" by simp
    with row(2) show "expired t r" by simp
  next
    assume "expired t r"
    with r n show "list_ex (\<lambda>row. r_id row \<noteq> None \<and> r_id r = r_id row) (filter (expired t) (files w))"
      by (auto simp: list_ex_iff list_all_iff)
  qed
  have "filter (\<lambda>r. \<not> list_ex (\<lambda>row. r_id row \<noteq> None \<and> r_id r = r_id row)
                    (filter (expired t) (files w))) (files w)
        = filter (\<lambda>r. \<not> expired t r) (files w)"
  proof (rule filter_cong)
    show "files w = files w" by (rule refl)
  next
    fix x assume "x \<in> set (files w)"
    from iff [OF this]
    show "(\<not> list_ex (\<lambda>row. r_id row \<noteq> None \<and> r_id x = r_id row)
                    (filter (expired t) (files w))) = (\<not> expired t x)"
      by (simp only:)
  qed
  then show ?thesis
    using sweep_bound [of c "filter (expired t) (files w)" w]
    by (simp add: deleteExpiredFiles_def fold_delete_by_id)
qed

lemma example_bound_tick:
  "files (snd (deleteExpiredFiles (Some example_cron) 1700000000 expiry_world)) = []
   \<and> purged (snd (deleteExpiredFiles (Some example_cron) 1700000000 expiry_world))
       = [[''https://share.example/abc123'']]
   \<and> disk (snd (deleteExpiredFiles (Some example_cron) 1700000000 expiry_world))
       ''/notesx/userfiles/notes/ab/abc123.html'' = None"
  by (simp add: deleteExpiredFiles_def expiry_world_def expired_note_def alice_note_def
      expired_def note_world_def empty_world_def example_cron_def example_app_def Let_def
      sweep_path_def sweep_url_def
      unlink_quietly_def purgeCache_def delete_by_id_def row_filename_def displayUrl_def
      fullFilePath_filePath_def fullFilePath_folder_def folderPath_def subdir_def substring0_def)

text \<open>
  Claim C4 on the code. The tick that the constructor schedules runs the method without
  its instance. With one expired record in the index, the tick ends in a \<^verbatim>\<open>TypeError\<close>
  at the first record: the file is still on disk, nothing was purged and the row is
  still in the index.
\<close>

theorem scheduled_tick_expired_record_survives:
  "expired 1700000000 expired_note
   \<and> files expiry_world = [expired_note]
   \<and> scheduled_tick 1700000000 expiry_world = (Inl TypeError, expiry_world)
   \<and> files (snd (scheduled_tick 1700000000 expiry_world)) = [expired_note]
   \<and> disk (snd (scheduled_tick 1700000000 expiry_world))
        ''/notesx/userfiles/notes/ab/abc123.html'' = Some ''<p>hi</p>''
   \<and> purged (snd (scheduled_tick 1700000000 expiry_world)) = []"
proof -
  have e: "expired 1700000000 expired_note"
    by (simp add: expired_def expired_note_def)
  have f: "files expiry_world = [expired_note]"
    by (simp add: expiry_world_def)
  have t: "scheduled_tick 1700000000 expiry_world = (Inl TypeError, expiry_world)"
    by (simp add: scheduled_tick_def deleteExpiredFiles_def f e)
  have d: "disk expiry_world ''/notesx/userfiles/notes/ab/abc123.html'' = Some ''<p>hi</p>''"
    and p: "purged expiry_world = []"
    by (simp_all add: expiry_world_def note_world_def empty_world_def)
  from e f t d p show ?thesis by simp
qed

subsection \<open>Hexadecimal digests and \<^verbatim>\<open>LIKE\<close> patterns\<close>

lemma lower_hex_plain:
  "lower_hex c \<Longrightarrow> c \<noteq> CHR ''%'' \<and> c \<noteq> CHR ''_'' \<and> lower_ascii c = c"
  by (auto simp: lower_hex_def lower_ascii_def)

lemma like_percent: "like ''%'' s"
  by (induction s) simp_all

lemma like_hex_prefix:
  "list_all lower_hex p \<Longrightarrow>
     like (p @ ''%'') s = (length p \<le> length s \<and> map lower_ascii (take (length p) s) = p)"
proof (induction p arbitrary: s)
  case Nil
  then show ?case by (simp add: like_percent)
next
  case (Cons c p)
  then have c: "c \<noteq> CHR ''%''" "c \<noteq> CHR ''_''" "lower_ascii c = c" and p: "list_all lower_hex p"
    using lower_hex_plain [of c] by simp_all
  show ?case
  proof (cases s)
    case Nil
    then show ?thesis using c by simp
  next
    case (Cons d s')
    then show ?thesis using c Cons.IH [OF p, of s'] by auto
  qed
qed

lemma hex2: "n < 256 \<Longrightarrow>
  padStart2 (toString_radix 16 n) = [digits36 ! (n div 16), digits36 ! (n mod 16)]"
proof -
  assume n: "n < 256"
  show ?thesis
  proof (cases "n < 16")
    case True
    then show ?thesis
      by (simp add: toString_radix.simps [of 16 n] padStart2_def digits36_def)
  next
    case False
    with n have "n div 16 < 16" by simp
    with False show ?thesis
      by (simp add: toString_radix.simps [of 16 n] toString_radix.simps [of 16 "n div 16"]
          padStart2_def)
  qed
qed

lemma unat_byte: "unat (b :: 8 word) < 256"
proof -
  have "unat b < 2 ^ LENGTH(8)" by (rule unsigned_less)
  then show ?thesis by simp
qed

lemma hex_of_bytes_eq:
  "hex_of_bytes bs = concat (map (\<lambda>b. [digits36 ! (unat b div 16), digits36 ! (unat b mod 16)]) bs)"
  by (simp add: hex_of_bytes_def hex2 unat_byte)

lemma digit16_hex: "d < 16 \<Longrightarrow> lower_hex (digits36 ! d)"
proof -
  assume "d < 16"
  then have "d = 0 \<or> d = 1 \<or> d = 2 \<or> d = 3 \<or> d = 4 \<or> d = 5 \<or> d = 6 \<or> d = 7
      \<or> d = 8 \<or> d = 9 \<or> d = 10 \<or> d = 11 \<or> d = 12 \<or> d = 13 \<or> d = 14 \<or> d = 15"
    by arith
  then show ?thesis
    by (elim disjE) (simp_all add: digits36_def lower_hex_def)
qed

lemma byte_nibbles: "unat (b :: 8 word) div 16 < 16 \<and> unat b mod 16 < 16"
  using unat_byte [of b] by simp

lemma hex_of_bytes_lower_hex: "list_all lower_hex (hex_of_bytes bs)"
  by (induction bs) (simp_all add: hex_of_bytes_eq digit16_hex byte_nibbles)

lemma length_hex_of_bytes: "length (hex_of_bytes bs) = 2 * length bs"
  by (induction bs) (simp_all add: hex_of_bytes_eq)

lemma take_hex_of_bytes: "take (2 * k) (hex_of_bytes bs) = hex_of_bytes (take k bs)"
proof (induction bs arbitrary: k)
  case Nil
  then show ?case by (simp add: hex_of_bytes_eq)
next
  case (Cons b bs)
  show ?case
  proof (cases k)
    case 0
    then show ?thesis by (simp add: hex_of_bytes_eq)
  next
    case (Suc j)
    with Cons.IH [of j] show ?thesis by (simp add: hex_of_bytes_eq)
  qed
qed




lemma shortHash_eq: "shortHash D m = hex_of_bytes (take 16 (D ''SHA-256'' m))"
  using take_hex_of_bytes [of 16 "D ''SHA-256'' m"]
  by (simp add: shortHash_def sha256_def sha_def)


lemma length_shortHash:
  "length (D ''SHA-256'' m) = 32 \<Longrightarrow> length (shortHash D m) = 32"
  by (simp add: shortHash_eq length_hex_of_bytes)

lemma shortHash_lower_hex: "list_all lower_hex (shortHash D m)"
  by (simp add: shortHash_eq hex_of_bytes_lower_hex)



lemma example_shortHash_bob:
  "shortHash example_digest (''pepper'' @ ''uid-bob'') = ''424f5c697683909daab7c4d1deebf805''"
  by (simp add: shortHash_eq example_digest_def hex_of_bytes_eq upt_rec digits36_def)



subsection \<open>The stylesheet prefix\<close>







subsection \<open>Stylesheet filenames\<close>

lemma existingCss_where_hex:
  "list_all lower_hex prefix \<Longrightarrow> existingCss_where (prefix @ ''%'') h = css_match prefix h"
  by (rule ext)
     (auto simp: existingCss_where_def css_match_def starts_with_ci_def like_hex_prefix
       split: option.splits)

lemma starts_with_literal:
  "list_all lower_hex prefix \<Longrightarrow> starts_with_ci prefix (prefix @ g)"
proof -
  assume "list_all lower_hex prefix"
  then have "map lower_ascii prefix = prefix"
    by (induction prefix) (simp_all add: lower_hex_plain)
  then show ?thesis by (simp add: starts_with_ci_def)
qed

lemma check_preserves:
  "checkPostFilenameAndExtension this = (r, this1) \<Longrightarrow>
     app this1 = app this \<and> user this1 = user this \<and> hash this1 = hash this
     \<and> cssFilename this1 = cssFilename this \<and> post this1 = post this
     \<and> initialised this1 = initialised this"
  by (auto simp: checkPostFilenameAndExtension_def Let_def split: if_splits jsval.splits)

lemma initFile_css_named:
  assumes memo: "cssFilename this = None" and uid: "user_uid (user this) = Some u" "u \<noteq> []"
      and h: "hash this = Some h" "h \<noteq> []"
      and prefix: "prefix = shortHash (digest w) (hashSalt (app this) @ u)"
  shows "initFile_css this w =
     (let name = (case find (css_match prefix h) (files w) of
                    None \<Rightarrow> prefix @ take 8 h
                  | Some row \<Rightarrow> row_filename row)
      in (Inr None,
          this\<lparr>cssFilename := Some prefix, filename := name,
               file_mapper := Some (load [(filetype_col, extension this), (filename_col, name)]
                                      (files w))\<rparr>,
          w))"
proof -
  have hex: "list_all lower_hex prefix"
    unfolding prefix by (rule shortHash_lower_hex)
  have g: "getCssFilename this w = (prefix, this\<lparr>cssFilename := Some prefix\<rparr>)"
    using memo uid by (simp add: getCssFilename_def computeCssFilename_def prefix)
  have e: "existingCss (prefix @ ''%'') h (files w)
      = (case find (css_match prefix h) (files w) of None \<Rightarrow> None | Some row \<Rightarrow> r_filename row)"
    by (simp add: existingCss_def existingCss_where_hex [OF hex])
  show ?thesis
  proof (cases "find (css_match prefix h) (files w)")
    case None
    then show ?thesis
      using h by (simp add: initFile_css_def g e css_load_def Let_def)
  next
    case (Some row)
    from find_Some_mem [OF Some] obtain f where f: "r_filename row = Some f"
      by (auto simp: css_match_def split: option.splits)
    with Some show ?thesis
      using h by (simp add: initFile_css_def g e css_load_def row_filename_def Let_def)
  qed
qed

text \<open>
  Claim C5, as amended. A request whose hash is missing or malformed is rejected with
  status 463 before any filename is computed, so no stylesheet is ever named by the bare
  prefix. For a stylesheet upload with a well-formed hash \<open>h\<close> by a user with a non-empty
  uid, the prefix is the first 32 characters of the hexadecimal SHA-256 of salt and uid;
  if some \<^verbatim>\<open>css\<close> record has hash \<open>h\<close> and a filename that starts with the prefix, the
  filename of the first such record is reused, otherwise the new filename is the prefix
  followed by the first 8 characters of \<open>h\<close>; the resolution succeeds and writes nothing.
\<close>

theorem initFile_css_filename:
  assumes fresh_req: "\<not> initialised this"
  shows "(hash_rejected (hash this)
           \<longrightarrow> initFile c this w = (Inl (HTTPException (Code 463)), this, w))
       \<and> (hash this = Some h \<and> \<not> hash_rejected (Some h)
            \<and> checkPostFilenameAndExtension this = (Inr (), this1) \<and> extension this1 = ''css''
            \<and> cssFilename this = None \<and> user_uid (user this) = Some u \<and> u \<noteq> []
            \<and> prefix = take 32 (sha256 (digest w) (hashSalt (app this) @ u))
           \<longrightarrow> fst (initFile c this w) = Inr None
             \<and> initialised (fst (snd (initFile c this w)))
             \<and> snd (snd (initFile c this w)) = w
             \<and> list_all lower_hex prefix
             \<and> (length (digest w ''SHA-256'' (hashSalt (app this) @ u)) = 32
                   \<longrightarrow> length prefix = 32)
             \<and> (r_filetype row = Some ''css'' \<and> r_hash row = Some h
                  \<and> r_filename row = Some (prefix @ g) \<longrightarrow> css_match prefix h row)
             \<and> (case find (css_match prefix h) (files w) of
                   Some first \<Rightarrow> r_filename first = Some (filename (fst (snd (initFile c this w))))
                 | None \<Rightarrow> filename (fst (snd (initFile c this w))) = prefix @ take 8 h)
             \<and> file_mapper (fst (snd (initFile c this w)))
                 = Some (load [(filetype_col, ''css''),
                               (filename_col, filename (fst (snd (initFile c this w))))] (files w)))"
proof (intro conjI impI)
  assume "hash_rejected (hash this)"
  with fresh_req show "initFile c this w = (Inl (HTTPException (Code 463)), this, w)"
    by (simp add: initFile_def)
next
  assume a: "hash this = Some h \<and> \<not> hash_rejected (Some h)
            \<and> checkPostFilenameAndExtension this = (Inr (), this1) \<and> extension this1 = ''css''
            \<and> cssFilename this = None \<and> user_uid (user this) = Some u \<and> u \<noteq> []
            \<and> prefix = take 32 (sha256 (digest w) (hashSalt (app this) @ u))"
  then have chk: "checkPostFilenameAndExtension this = (Inr (), this1)"
    and css: "extension this1 = ''css''" and hok: "\<not> hash_rejected (hash this)"
    and p: "prefix = shortHash (digest w) (hashSalt (app this) @ u)"
    by (simp_all add: shortHash_def)
  from a have hne: "h \<noteq> []" by (auto simp: hash_rejected_def)
  note keep = check_preserves [OF chk]
  let ?this2 = "this1\<lparr>file_mapper := Some emptyRow\<rparr>"
  let ?name = "case find (css_match prefix h) (files w) of
                    None \<Rightarrow> prefix @ take 8 h
                  | Some row \<Rightarrow> row_filename row"
  have br: "initFile_css ?this2 w =
     (Inr None,
      ?this2\<lparr>cssFilename := Some prefix, filename := ?name,
               file_mapper := Some (load [(filetype_col, ''css''), (filename_col, ?name)]
                                      (files w))\<rparr>,
      w)"
    using initFile_css_named [of ?this2 u h prefix w] a keep p hne css
    by (simp add: Let_def)
  have init: "initFile c this w =
     (Inr None,
      ?this2\<lparr>cssFilename := Some prefix, filename := ?name,
               file_mapper := Some (load [(filetype_col, ''css''), (filename_col, ?name)]
                                      (files w)),
               initialised := True\<rparr>,
      w)"
    using fresh_req hok css by (simp add: initFile_def chk br)
  show "fst (initFile c this w) = Inr None" by (simp add: init)
  show "initialised (fst (snd (initFile c this w)))" by (simp add: init)
  show "snd (snd (initFile c this w)) = w" by (simp add: init)
  show hex: "list_all lower_hex prefix" unfolding p by (rule shortHash_lower_hex)
  show "length prefix = 32" if "length (digest w ''SHA-256'' (hashSalt (app this) @ u)) = 32"
    unfolding p using that by (rule length_shortHash)
  show "css_match prefix h row"
    if "r_filetype row = Some ''css'' \<and> r_hash row = Some h \<and> r_filename row = Some (prefix @ g)"
    using that starts_with_literal [OF hex, of g] by (simp add: css_match_def)
  show "case find (css_match prefix h) (files w) of
          Some first \<Rightarrow> r_filename first = Some (filename (fst (snd (initFile c this w))))
        | None \<Rightarrow> filename (fst (snd (initFile c this w))) = prefix @ take 8 h"
  proof (cases "find (css_match prefix h) (files w)")
    case None
    then show ?thesis by (simp add: init)
  next
    case (Some first)
    from find_Some_mem [OF Some] obtain f where "r_filename first = Some f"
      by (auto simp: css_match_def split: option.splits)
    with Some show ?thesis by (simp add: init row_filename_def)
  qed
  show "file_mapper (fst (snd (initFile c this w)))
      = Some (load [(filetype_col, ''css''),
                    (filename_col, filename (fst (snd (initFile c this w))))] (files w))"
    by (simp add: init)
qed

text \<open>
  Claim C5 as stated fails in its last clause: bob's stylesheet upload without a hash is
  rejected with status 463, and the instance's filename is not the bare prefix.
\<close>

theorem initFile_css_no_hash_counterexample:
  "hash (new_File example_app hashless_css_post bob) = None
   \<and> fst (initFile True (new_File example_app hashless_css_post bob) empty_world)
       = Inl (HTTPException (Code 463))
   \<and> filename (fst (snd (initFile True (new_File example_app hashless_css_post bob) empty_world)))
       \<noteq> shortHash (digest empty_world) (hashSalt example_app @ ''uid-bob'')
   \<and> shortHash (digest empty_world) (hashSalt example_app @ ''uid-bob'')
       = ''424f5c697683909daab7c4d1deebf805''"
proof -
  have h: "hash (new_File example_app hashless_css_post bob) = None"
    by (simp add: new_File_def hashless_css_post_def)
  have r: "initFile True (new_File example_app hashless_css_post bob) empty_world
      = (Inl (HTTPException (Code 463)), new_File example_app hashless_css_post bob, empty_world)"
    by (simp add: initFile_def h hash_rejected_def) (simp add: new_File_def)
  have p: "shortHash (digest empty_world) (hashSalt example_app @ ''uid-bob'')
      = ''424f5c697683909daab7c4d1deebf805''"
    using example_shortHash_bob by (simp add: empty_world_def example_app_def)
  have f: "filename (new_File example_app hashless_css_post bob) = []"
    by (simp add: new_File_def)
  from h r p f show ?thesis by simp
qed

theorem initFile_css_filename_witness:
  "initFile True (new_File example_app hashless_css_post bob) empty_world
     = (Inl (HTTPException (Code 463)), new_File example_app hashless_css_post bob, empty_world)
   \<and> find (css_match ''424f5c697683909daab7c4d1deebf805'' example_hash) (files empty_world) = None
   \<and> fst (initFile True (new_File example_app css_post bob) empty_world) = Inr None
   \<and> filename (fst (snd (initFile True (new_File example_app css_post bob) empty_world)))
       = ''424f5c697683909daab7c4d1deebf80501234567''
   \<and> find (css_match ''424f5c697683909daab7c4d1deebf805'' example_hash) (files css_world)
       = Some bob_css
   \<and> fst (initFile True (new_File example_app css_post bob) css_world) = Inr None
   \<and> r_filename bob_css
       = Some (filename (fst (snd (initFile True (new_File example_app css_post bob) css_world))))
   \<and> snd (snd (initFile True (new_File example_app css_post bob) css_world)) = css_world"
proof -
  let ?H = "new_File example_app hashless_css_post bob"
  let ?B = "new_File example_app css_post bob"
  let ?P = "''424f5c697683909daab7c4d1deebf805''"
  have i: "\<not> initialised (new_File example_app p bob)" for p by (simp add: new_File_def)
  have rej: "hash_rejected (hash ?H)"
    by (simp add: new_File_def hashless_css_post_def hash_rejected_def)
  have pe: "?P = take 32 (sha256 (digest empty_world) (hashSalt (app ?B) @ ''uid-bob''))"
    using example_shortHash_bob
    by (simp add: empty_world_def example_app_def new_File_def shortHash_def)
  have pc: "?P = take 32 (sha256 (digest css_world) (hashSalt (app ?B) @ ''uid-bob''))"
    using example_shortHash_bob
    by (simp add: css_world_def empty_world_def example_app_def new_File_def shortHash_def)
  have hyp: "hash ?B = Some example_hash \<and> \<not> hash_rejected (Some example_hash)
      \<and> checkPostFilenameAndExtension ?B = (Inr (), ?B\<lparr>extension := ''css''\<rparr>)
      \<and> extension (?B\<lparr>extension := ''css''\<rparr>) = ''css''
      \<and> cssFilename ?B = None \<and> user_uid (user ?B) = Some ''uid-bob'' \<and> ''uid-bob'' \<noteq> []"
    using example_hash_accepted check_css_post
    by (simp add: new_File_def css_post_def bob_def)
  have fe: "find (css_match ?P example_hash) (files empty_world) = None"
    by (simp add: empty_world_def)
  have fc: "find (css_match ?P example_hash) (files css_world) = Some bob_css"
    by (simp add: css_world_def css_match_def alice_note_def bob_css_def starts_with_ci_def
        lower_ascii_def)
  note t0 = initFile_css_filename [OF i [of hashless_css_post], where c = True
      and w = empty_world, THEN conjunct1]
  note t1 = initFile_css_filename [OF i [of css_post], where c = True and w = empty_world
      and h = example_hash and ?this1.0 = "?B\<lparr>extension := ''css''\<rparr>" and u = "''uid-bob''"
      and prefix = ?P and row = bob_css and g = "''01234567''", THEN conjunct2]
  note t2 = initFile_css_filename [OF i [of css_post], where c = True and w = css_world
      and h = example_hash and ?this1.0 = "?B\<lparr>extension := ''css''\<rparr>" and u = "''uid-bob''"
      and prefix = ?P and row = bob_css and g = "''01234567''", THEN conjunct2]
  from t0 rej have c0: "initFile True ?H empty_world = (Inl (HTTPException (Code 463)), ?H, empty_world)"
    by blast
  from t1 hyp pe have e1: "fst (initFile True ?B empty_world) = Inr None"
    and e2: "case find (css_match ?P example_hash) (files empty_world) of
          Some first \<Rightarrow> r_filename first = Some (filename (fst (snd (initFile True ?B empty_world))))
        | None \<Rightarrow> filename (fst (snd (initFile True ?B empty_world))) = ?P @ take 8 example_hash"
    by blast+
  from e2 have "filename (fst (snd (initFile True ?B empty_world))) = ?P @ take 8 example_hash"
    by (simp only: fe option.case)
  then have e3: "filename (fst (snd (initFile True ?B empty_world)))
      = ''424f5c697683909daab7c4d1deebf80501234567''"
    by (simp add: example_hash_def)
  from t2 hyp pc have d1: "fst (initFile True ?B css_world) = Inr None"
    and d2: "case find (css_match ?P example_hash) (files css_world) of
          Some first \<Rightarrow> r_filename first = Some (filename (fst (snd (initFile True ?B css_world))))
        | None \<Rightarrow> filename (fst (snd (initFile True ?B css_world))) = ?P @ take 8 example_hash"
    and d4: "snd (snd (initFile True ?B css_world)) = css_world"
    by blast+
  from d2 have d3: "r_filename bob_css = Some (filename (fst (snd (initFile True ?B css_world))))"
    by (simp only: fc option.case)
  from c0 fe e1 e3 fc d1 d3 d4 show ?thesis by blast
qed

subsection \<open>Anonymous stylesheet prefixes that coincide\<close>


end
